theory Spec2Isabelle
  imports Complex_Main "HOL-Library.AList"
begin

section \<open>Values shared by all services\<close>

text \<open>
  Python values are modelled as follows. A \<open>uuid.UUID\<close> is its 128-bit integer value
  (a \<open>nat\<close>); a naive \<open>datetime\<close> is a number of seconds on the proleptic Gregorian
  time line (an \<open>int\<close>), so that \<open>datetime.now() - timedelta(hours=24)\<close> is a
  subtraction; a \<open>float\<close> amount, weight or score is an exact rational (rounding of
  binary floating point is not modelled); a JSON object (\<open>Dict\<close>) is an association
  list with the update and lookup of a dictionary; a JSON value of mixed shape is a
  \<open>json\<close> tree. Free-text columns that no operation reads back (titles, descriptions,
  summaries, audit details) are left out of the records. A row constructor
  (\<open>Customer(...)\<close>, \<open>Report(...)\<close>, ...) is taken to accept the columns it is given and to
  fill the others with their defaults (an empty list for a list column); the decorator
  \<open>@authenticated\<close> is taken to pass a call through to the function body.
\<close>

type_synonym uuid = nat
type_synonym datetime = int
type_synonym 'v dict = "(string \<times> 'v) list"

datatype error = ValueError string | IndexError

datatype json =
    JNull
  | JBool bool
  | JNum rat
  | JStr string
  | JList "json list"
  | JObj "(string \<times> json) list"


definition has_key :: "string \<Rightarrow> 'v dict \<Rightarrow> bool" where
  "has_key k d = (map_of d k \<noteq> None)"

definition dict_get :: "'v dict \<Rightarrow> string \<Rightarrow> 'v \<Rightarrow> 'v" where
  "dict_get d k dflt = (case map_of d k of None \<Rightarrow> dflt | Some v \<Rightarrow> v)"

definition dict_set :: "string \<Rightarrow> 'v \<Rightarrow> 'v dict \<Rightarrow> 'v dict" where
  "dict_set k v d = AList.update k v d"

definition dict_update :: "'v dict \<Rightarrow> 'v dict \<Rightarrow> 'v dict" where
  "dict_update d e = foldl (\<lambda>acc kv. dict_set (fst kv) (snd kv) acc) d e"

definition timedelta_hours :: "int \<Rightarrow> int" where
  "timedelta_hours h = h * 3600"

definition timedelta_days :: "int \<Rightarrow> int" where
  "timedelta_days d = d * 86400"

definition hour_of :: "datetime \<Rightarrow> int" where
  "hour_of t = (t div 3600) mod 24"

text \<open>\<open>str.lower()\<close> on ASCII text.\<close>

definition lower_char :: "char \<Rightarrow> char" where
  "lower_char c =
     (case map_of (zip ''ABCDEFGHIJKLMNOPQRSTUVWXYZ'' ''abcdefghijklmnopqrstuvwxyz'') c of
        None \<Rightarrow> c
      | Some d \<Rightarrow> d)"

definition lower :: "string \<Rightarrow> string" where
  "lower s = map lower_char s"

text \<open>Python's \<open>x % m\<close> on numbers, for a positive modulus.\<close>

definition py_mod :: "rat \<Rightarrow> rat \<Rightarrow> rat" where
  "py_mod x m = x - m * of_int \<lfloor>x / m\<rfloor>"


section \<open>Tables\<close>

record customer =
  cust_id :: uuid
  cust_user_id :: uuid
  cust_first_name :: string
  cust_last_name :: string
  cust_email :: string
  cust_phone :: string
  cust_date_of_birth :: datetime
  cust_nationality :: string
  cust_customer_id :: string
  cust_bvn :: "string option"
  cust_nin :: "string option"
  cust_kyc_status :: string
  cust_kyc_level :: string
  cust_address_line1 :: string
  cust_address_line2 :: "string option"
  cust_city :: string
  cust_state :: string
  cust_country :: string
  cust_postal_code :: "string option"
  cust_risk_score :: rat
  cust_risk_category :: string
  cust_pep_status :: bool
  cust_sanctions_checked :: bool
  cust_last_risk_assessment :: "datetime option"
  cust_account_numbers :: "string list"
  cust_account_types :: "string list"
  cust_account_opening_date :: datetime
  cust_customer_since :: datetime
  cust_requires_enhanced_dd :: bool
  cust_created_at :: datetime
  cust_updated_at :: datetime
  cust_created_by :: uuid

record txn =
  txn_id :: uuid
  txn_transaction_id :: string
  txn_reference_number :: string
  txn_transaction_type :: string
  txn_transaction_method :: string
  txn_currency :: string
  txn_amount :: rat
  txn_customer_id :: uuid
  txn_account_number :: string
  txn_beneficiary_country :: "string option"
  txn_channel :: string
  txn_transaction_date :: datetime
  txn_value_date :: datetime
  txn_status :: string
  txn_risk_score :: rat
  txn_risk_flags :: "bool dict"
  txn_is_suspicious :: bool
  txn_alert_count :: nat
  txn_structuring_indicator :: bool
  txn_velocity_flag :: bool
  txn_amount_threshold_flag :: bool
  txn_unusual_pattern_flag :: bool
  txn_above_ctr_threshold :: bool
  txn_cross_border :: bool
  txn_cash_transaction :: bool

text \<open>The dictionary \<open>test_results\<close> of \<open>test_rule_against_historical_data\<close>.\<close>

record test_results =
  tr_test_period_days :: int
  tr_total_transactions_tested :: nat
  tr_total_triggers :: nat
  tr_true_positives :: nat
  tr_false_positives :: nat
  tr_trigger_rate_percent :: rat
  tr_false_positive_rate_percent :: rat
  tr_precision :: rat
  tr_effectiveness_score :: rat
  tr_test_date :: string

record rule =
  rule_id :: uuid
  rule_name :: string
  rule_code :: string
  rule_type :: string
  rule_conditions :: "bool dict"
  rule_thresholds :: "rat dict"
  rule_applies_to :: string
  rule_customer_segments :: "string list"
  rule_transaction_types :: "string list"
  rule_channels :: "string list"
  rule_risk_weight :: rat
  rule_severity_level :: string
  rule_status :: string
  rule_effective_date :: "datetime option"
  rule_test_results :: "test_results option"
  rule_false_positive_rate :: "rat option"
  rule_effectiveness_score :: "rat option"
  rule_last_tested :: "datetime option"
  rule_performance_reviewed :: "datetime option"
  rule_tuning_required :: bool
  rule_last_modified_by :: "uuid option"
  rule_updated_at :: datetime

record velocity_result =
  vr_threshold_exceeded :: bool
  vr_transaction_count :: nat
  vr_total_amount :: rat
  vr_count_threshold :: nat
  vr_amount_threshold :: rat

record structuring_result =
  sr_transaction_count :: nat
  sr_total_amount :: rat
  sr_likely_structuring :: bool

datatype threshold_value =
    AmountExceeded rat rat
  | Velocity velocity_result
  | Structuring structuring_result

record alert_data =
  ad_rule_id :: "uuid option"
  ad_rule_name :: string
  ad_risk_score :: rat
  ad_threshold_exceeded :: "threshold_value dict option"
  ad_severity :: "string option"

record alert =
  alert_id :: uuid
  alert_alert_id :: string
  alert_alert_type :: string
  alert_customer_id :: uuid
  alert_transaction_id :: "uuid option"
  alert_rule_id :: "uuid option"
  alert_severity :: string
  alert_risk_score :: rat
  alert_triggered_rules :: "string list"
  alert_threshold_values :: "threshold_value dict"
  alert_status :: string
  alert_case_id :: "uuid option"
  alert_escalated_at :: "datetime option"
  alert_triggered_at :: datetime
  alert_resolved_at :: "datetime option"
  alert_resolution :: "string option"
  alert_resolution_notes :: "string option"
  alert_resolved_by :: "uuid option"
  alert_detection_method :: string
  alert_regulatory_significance :: bool

record audit_log =
  log_id :: uuid
  log_event_id :: uuid
  log_event_type :: string
  log_event_category :: string
  log_user_id :: uuid
  log_action :: string
  log_resource_type :: string
  log_resource_id :: "uuid option"
  log_records_affected :: "nat option"
  log_regulatory_significance :: bool

text \<open>The entries of a case's \<open>evidence_collected\<close> and \<open>interviews_conducted\<close>.\<close>

record evidence =
  ev_id :: string
  ev_type :: string
  ev_description :: string
  ev_data :: json
  ev_added_by :: string
  ev_added_at :: string

record interview =
  iv_id :: string
  iv_customer_id :: string
  iv_interviewer :: string
  iv_interview_date :: string
  iv_method :: string
  iv_notes :: string
  iv_outcome :: string

record aml_case =
  case_id :: uuid
  case_number :: string
  case_type :: string
  case_category :: string
  case_customer_id :: uuid
  case_related_customers :: "uuid list"
  case_alert_ids :: "uuid list"
  case_transaction_ids :: "uuid list"
  case_priority :: int
  case_risk_level :: string
  case_status :: string
  case_assigned_to :: uuid
  case_assigned_at :: "datetime option"
  case_investigation_started_at :: "datetime option"
  case_review_started_at :: "datetime option"
  case_sla_deadline :: "datetime option"
  case_sla_breached :: bool
  case_investigation_notes :: string
  case_evidence_collected :: "evidence dict"
  case_interviews_conducted :: "interview list"
  case_decision :: "string option"
  case_actions_taken :: "string list"
  case_str_required :: bool
  case_str_filed :: bool
  case_str_reference :: "string option"
  case_str_filed_date :: "datetime option"
  case_closure_reason :: "string option"
  case_closure_notes :: "string option"
  case_closed_by :: "uuid option"
  case_closed_at :: "datetime option"
  case_created_at :: datetime
  case_updated_at :: datetime
  case_created_by :: uuid

record nfiu_export =
  ex_report_number :: string
  ex_report_type :: string
  ex_filing_institution :: string
  ex_filing_date :: "string option"
  ex_period_from :: string
  ex_period_to :: string
  ex_subject_information :: json
  ex_transaction_count :: nat
  ex_total_amount :: rat
  ex_currency :: string
  ex_narrative :: string
  ex_activity_type :: string
  ex_activity_description :: string
  ex_prepared_by :: string
  ex_reviewed_by :: "string option"
  ex_approved_by :: "string option"

record report =
  rep_id :: uuid
  rep_report_number :: string
  rep_report_type :: string
  rep_report_category :: string
  rep_case_id :: "uuid option"
  rep_customer_id :: uuid
  rep_related_customers :: "uuid list"
  rep_transaction_ids :: "uuid list"
  rep_alert_ids :: "uuid list"
  rep_narrative :: string
  rep_suspicious_activity_type :: string
  rep_activity_description :: string
  rep_total_amount :: rat
  rep_currency :: string
  rep_subject_information :: json
  rep_status :: string
  rep_prepared_by :: uuid
  rep_reviewed_by :: "uuid option"
  rep_approved_by :: "uuid option"
  rep_incident_date_from :: datetime
  rep_incident_date_to :: datetime
  rep_detection_date :: datetime
  rep_filed :: bool
  rep_filing_date :: "datetime option"
  rep_filing_method :: "string option"
  rep_filing_reference :: "string option"
  rep_filed_by :: "uuid option"
  rep_qa_reviewed :: bool
  rep_qa_reviewer :: "uuid option"
  rep_qa_notes :: "string option"
  rep_qa_approved :: bool
  rep_export_data :: "nfiu_export option"
  rep_created_at :: datetime
  rep_updated_at :: datetime
  rep_created_by :: uuid

text \<open>
  The database: one list of rows per table, in insertion order. \<open>rng\<close> counts the
  calls of \<open>uuid.uuid4()\<close> made so far; the values drawn come from the environment.
\<close>

record state =
  customers :: "customer list"
  transactions :: "txn list"
  rules :: "rule list"
  alerts :: "alert list"
  cases :: "aml_case list"
  reports :: "report list"
  audit_logs :: "audit_log list"
  rng :: nat

record env =
  env_now :: datetime
  env_uuid4 :: "nat \<Rightarrow> uuid"

record user =
  user_id :: uuid

definition uuid4 :: "env \<Rightarrow> state \<Rightarrow> uuid \<times> state" where
  "uuid4 e st = (env_uuid4 e (rng st), st\<lparr>rng := rng st + 1\<rparr>)"

text \<open>\<open>Table.sync()\<close>: insert the row, or replace the row with the same primary key.\<close>

definition sync :: "('a \<Rightarrow> uuid) \<Rightarrow> 'a \<Rightarrow> 'a list \<Rightarrow> 'a list" where
  "sync key x xs =
     (if list_ex (\<lambda>y. key y = key x) xs
      then map (\<lambda>y. if key y = key x then x else y) xs
      else xs @ [x])"

section \<open>Text forms of identifiers and dates\<close>

definition hex_char :: "nat \<Rightarrow> char" where
  "hex_char d = ''0123456789abcdef'' ! (d mod 16)"

fun hex_fixed :: "nat \<Rightarrow> nat \<Rightarrow> string" where
  "hex_fixed 0 v = []"
| "hex_fixed (Suc n) v = hex_fixed n (v div 16) @ [hex_char v]"

text \<open>\<open>str(u)\<close> for a UUID: 32 lowercase hex digits grouped 8-4-4-4-12.\<close>

definition uuid_str :: "uuid \<Rightarrow> string" where
  "uuid_str u =
     (let h = hex_fixed 32 u
      in take 8 h @ ''-'' @ take 4 (drop 8 h) @ ''-'' @ take 4 (drop 12 h) @ ''-'' @
         take 4 (drop 16 h) @ ''-'' @ drop 20 h)"

definition digit_char :: "nat \<Rightarrow> char" where
  "digit_char d = ''0123456789'' ! (d mod 10)"

fun dec_fixed :: "nat \<Rightarrow> nat \<Rightarrow> string" where
  "dec_fixed 0 v = []"
| "dec_fixed (Suc n) v = dec_fixed n (v div 10) @ [digit_char v]"

text \<open>
  The calendar date of a day number (days since 1970-01-01) in the proleptic Gregorian
  calendar, as \<open>datetime\<close> computes it: (year, month, day).
\<close>

definition civil_from_days :: "int \<Rightarrow> int \<times> int \<times> int" where
  "civil_from_days z0 =
     (let z = z0 + 719468;
          era = z div 146097;
          doe = z - era * 146097;
          yoe = (doe - doe div 1460 + doe div 36524 - doe div 146096) div 365;
          doy = doe - (365 * yoe + yoe div 4 - yoe div 100);
          mp = (5 * doy + 2) div 153;
          d = doy - (153 * mp + 2) div 5 + 1;
          m = (if mp < 10 then mp + 3 else mp - 9);
          y = yoe + era * 400 + (if m \<le> 2 then 1 else 0)
      in (y, m, d))"

definition year_of :: "datetime \<Rightarrow> int" where
  "year_of t = fst (civil_from_days (t div 86400))"

definition month_of :: "datetime \<Rightarrow> int" where
  "month_of t = fst (snd (civil_from_days (t div 86400)))"

definition day_of :: "datetime \<Rightarrow> int" where
  "day_of t = snd (snd (civil_from_days (t div 86400)))"

text \<open>\<open>strftime('%Y%m%d')\<close>, \<open>strftime('%Y-%m-%d %H:%M:%S')\<close> and \<open>isoformat()\<close>, for years
  1000 to 9999.\<close>

definition strftime_Ymd :: "datetime \<Rightarrow> string" where
  "strftime_Ymd t =
     dec_fixed 4 (nat (year_of t)) @ dec_fixed 2 (nat (month_of t)) @ dec_fixed 2 (nat (day_of t))"

definition strftime_HMS :: "datetime \<Rightarrow> string" where
  "strftime_HMS t =
     dec_fixed 2 (nat (hour_of t)) @ '':'' @ dec_fixed 2 (nat ((t div 60) mod 60)) @ '':'' @
     dec_fixed 2 (nat (t mod 60))"

definition strftime_Y_m_d :: "datetime \<Rightarrow> string" where
  "strftime_Y_m_d t =
     dec_fixed 4 (nat (year_of t)) @ ''-'' @ dec_fixed 2 (nat (month_of t)) @ ''-'' @
     dec_fixed 2 (nat (day_of t))"

definition strftime_Y_m_d_HMS :: "datetime \<Rightarrow> string" where
  "strftime_Y_m_d_HMS t = strftime_Y_m_d t @ '' '' @ strftime_HMS t"



section \<open>Transaction monitoring\<close>

text \<open>
  \<open>check_transaction_velocity\<close>: the aggregate query counts and sums the customer's
  stored transactions of the last 24 hours. An aggregate \<open>SELECT\<close> always returns one
  row, and \<open>SUM\<close> over no rows is \<open>NULL\<close>, which \<open>or 0\<close> turns into 0. The rule is
  not an argument of the function.
\<close>

definition check_transaction_velocity :: "state \<Rightarrow> datetime \<Rightarrow> txn \<Rightarrow> customer \<Rightarrow> velocity_result" where
  "check_transaction_velocity st now transaction customer =
     (let recent_transactions =
            filter (\<lambda>x. txn_customer_id x = cust_id customer \<and>
                         txn_transaction_date x \<ge> now - timedelta_hours 24)
              (transactions st);
          count = length recent_transactions;
          total_amount = sum_list (map txn_amount recent_transactions);
          count_threshold = 50;
          amount_threshold = 10000000
      in \<lparr>vr_threshold_exceeded = (count \<ge> count_threshold \<or> total_amount \<ge> amount_threshold),
          vr_transaction_count = count,
          vr_total_amount = total_amount,
          vr_count_threshold = count_threshold,
          vr_amount_threshold = amount_threshold\<rparr>)"

definition detect_structuring :: "state \<Rightarrow> datetime \<Rightarrow> txn \<Rightarrow> customer \<Rightarrow> structuring_result" where
  "detect_structuring st now transaction customer =
     (let threshold_amount = 5000000;
          pattern_window = timedelta_days 1;
          recent_transactions =
            filter (\<lambda>x. txn_customer_id x = cust_id customer \<and>
                         txn_transaction_date x \<ge> now - pattern_window \<and>
                         threshold_amount * (8 / 10) \<le> txn_amount x \<and>
                         txn_amount x \<le> threshold_amount * (99 / 100))
              (transactions st);
          total_amount = sum_list (map txn_amount recent_transactions)
      in \<lparr>sr_transaction_count = length recent_transactions,
          sr_total_amount = total_amount,
          sr_likely_structuring =
            (if length recent_transactions \<ge> 3 then
               (if total_amount > threshold_amount then True else False)
             else False)\<rparr>)"

record rule_result =
  triggered :: bool
  risk_contribution :: rat
  alert_required :: bool
  threshold_values :: "threshold_value dict"

text \<open>
  \<open>apply_monitoring_rule\<close> runs six blocks in a fixed order over one mutable \<open>result\<close>.
  Each block is a function from the result so far to the next one; a block that fires
  assigns \<open>risk_contribution\<close> (it does not add to it, except for the high-risk country
  increment of the cross-border block).
\<close>

definition amount_rules :: "txn \<Rightarrow> rule \<Rightarrow> rule_result \<Rightarrow> rule_result" where
  "amount_rules transaction rule result =
     (if has_key ''amount_threshold'' (rule_conditions rule) then
        (let threshold = dict_get (rule_thresholds rule) ''amount'' 1000000
         in if txn_amount transaction \<ge> threshold then
              result\<lparr>triggered := True,
                     risk_contribution := rule_risk_weight rule * 20,
                     alert_required := True,
                     threshold_values :=
                       dict_set ''amount'' (AmountExceeded (txn_amount transaction) threshold)
                         (threshold_values result)\<rparr>
            else result)
      else result)"

definition velocity_rules :: "state \<Rightarrow> datetime \<Rightarrow> txn \<Rightarrow> customer \<Rightarrow> rule \<Rightarrow> rule_result \<Rightarrow> rule_result" where
  "velocity_rules st now transaction customer rule result =
     (if has_key ''velocity_check'' (rule_conditions rule) then
        (let velocity_result = check_transaction_velocity st now transaction customer
         in if vr_threshold_exceeded velocity_result then
              result\<lparr>triggered := True,
                     risk_contribution := rule_risk_weight rule * 15,
                     alert_required := True,
                     threshold_values :=
                       dict_set ''velocity'' (Velocity velocity_result) (threshold_values result)\<rparr>
            else result)
      else result)"

definition structuring_rules :: "state \<Rightarrow> datetime \<Rightarrow> txn \<Rightarrow> customer \<Rightarrow> rule \<Rightarrow> rule_result \<Rightarrow> rule_result" where
  "structuring_rules st now transaction customer rule result =
     (if has_key ''structuring_detection'' (rule_conditions rule) then
        (let structuring_result = detect_structuring st now transaction customer
         in if sr_likely_structuring structuring_result then
              result\<lparr>triggered := True,
                     risk_contribution := rule_risk_weight rule * 25,
                     alert_required := True,
                     threshold_values :=
                       dict_set ''structuring'' (Structuring structuring_result)
                         (threshold_values result)\<rparr>
            else result)
      else result)"

definition cross_border_rules :: "txn \<Rightarrow> rule \<Rightarrow> rule_result \<Rightarrow> rule_result" where
  "cross_border_rules transaction rule result =
     (if has_key ''cross_border'' (rule_conditions rule) \<and> txn_cross_border transaction then
        (let result = result\<lparr>triggered := True, risk_contribution := rule_risk_weight rule * 10\<rparr>
         in if txn_beneficiary_country transaction \<in> set (map Some [''AF'', ''IR'', ''KP'', ''SY'']) then
              result\<lparr>risk_contribution := risk_contribution result + rule_risk_weight rule * 20,
                     alert_required := True\<rparr>
            else result)
      else result)"

definition cash_rules :: "txn \<Rightarrow> rule \<Rightarrow> rule_result \<Rightarrow> rule_result" where
  "cash_rules transaction rule result =
     (if has_key ''cash_monitoring'' (rule_conditions rule) \<and> txn_cash_transaction transaction then
        (let cash_threshold = dict_get (rule_thresholds rule) ''cash_amount'' 500000
         in if txn_amount transaction \<ge> cash_threshold then
              result\<lparr>triggered := True,
                     risk_contribution := rule_risk_weight rule * 15,
                     alert_required := True\<rparr>
            else result)
      else result)"

definition customer_risk_rules :: "customer \<Rightarrow> rule \<Rightarrow> rule_result \<Rightarrow> rule_result" where
  "customer_risk_rules customer rule result =
     (if has_key ''customer_risk'' (rule_conditions rule) then
        (if cust_risk_category customer = ''high'' then
           result\<lparr>triggered := True, risk_contribution := rule_risk_weight rule * 10\<rparr>
         else if cust_pep_status customer then
           result\<lparr>triggered := True,
                  risk_contribution := rule_risk_weight rule * 15,
                  alert_required := True\<rparr>
         else result)
      else result)"

definition apply_monitoring_rule :: "state \<Rightarrow> datetime \<Rightarrow> txn \<Rightarrow> customer \<Rightarrow> rule \<Rightarrow> rule_result" where
  "apply_monitoring_rule st now transaction customer rule =
     (let result = \<lparr>triggered = False, risk_contribution = 0, alert_required = False,
                     threshold_values = []\<rparr>;
          result = amount_rules transaction rule result;
          result = velocity_rules st now transaction customer rule result;
          result = structuring_rules st now transaction customer rule result;
          result = cross_border_rules transaction rule result;
          result = cash_rules transaction rule result;
          result = customer_risk_rules customer rule result
      in result)"

record pattern_result =
  pr_risk_contribution :: rat
  pr_flags :: "bool dict"
  pr_alerts :: "alert_data list"

text \<open>
  \<open>detect_transaction_patterns\<close>. \<open>AVG(amount)\<close> over no rows is \<open>NULL\<close>; the source
  uses the average only when it is neither \<open>NULL\<close> nor zero.
\<close>

definition detect_transaction_patterns :: "state \<Rightarrow> datetime \<Rightarrow> txn \<Rightarrow> customer \<Rightarrow> pattern_result" where
  "detect_transaction_patterns st now transaction customer =
     (let r = \<lparr>pr_risk_contribution = 0, pr_flags = [], pr_alerts = []\<rparr>;
          transaction_hour = hour_of (txn_transaction_date transaction);
          r = (if transaction_hour < 6 \<or> transaction_hour > 22 then
                 r\<lparr>pr_risk_contribution := pr_risk_contribution r + 5,
                    pr_flags := dict_set ''unusual_time'' True (pr_flags r)\<rparr>
               else r);
          r = (if py_mod (txn_amount transaction) 1000000 = 0 \<and> txn_amount transaction \<ge> 1000000 then
                 r\<lparr>pr_risk_contribution := pr_risk_contribution r + 8,
                    pr_flags := dict_set ''round_amount'' True (pr_flags r)\<rparr>
               else r);
          history =
            filter (\<lambda>x. txn_customer_id x = cust_id customer \<and>
                         txn_transaction_date x \<ge> now - timedelta_days 30)
              (transactions st);
          avg_amount =
            (if history = [] then None
             else Some (sum_list (map txn_amount history) / of_nat (length history)))
      in case avg_amount of
           None \<Rightarrow> r
         | Some avg \<Rightarrow>
             if avg \<noteq> 0 \<and> txn_amount transaction > avg * 10 then
               r\<lparr>pr_risk_contribution := pr_risk_contribution r + 15,
                  pr_flags := dict_set ''unusual_amount'' True (pr_flags r),
                  pr_alerts := pr_alerts r @
                    [\<lparr>ad_rule_id = None, ad_rule_name = ''Unusual Amount Pattern'',
                      ad_risk_score = 15, ad_threshold_exceeded = None,
                      ad_severity = Some ''medium''\<rparr>]\<rparr>
             else r)"

record monitoring_results =
  mr_risk_score :: rat
  mr_risk_flags :: "bool dict"
  mr_is_suspicious :: bool
  mr_alerts_generated :: "alert_data list"
  mr_rules_triggered :: nat

text \<open>The body of the loop over the active rules of \<open>perform_aml_monitoring\<close>.\<close>

definition monitor_rule ::
  "state \<Rightarrow> datetime \<Rightarrow> txn \<Rightarrow> customer \<Rightarrow> rat \<times> bool dict \<times> alert_data list \<Rightarrow> rule
     \<Rightarrow> rat \<times> bool dict \<times> alert_data list" where
  "monitor_rule st now transaction customer acc rule =
     (case acc of (risk_score, risk_flags, alerts_generated) \<Rightarrow>
        (let rule_result = apply_monitoring_rule st now transaction customer rule
         in if triggered rule_result then
              (risk_score + risk_contribution rule_result,
               dict_set (lower (rule_code rule)) True risk_flags,
               (if alert_required rule_result then
                  alerts_generated @
                    [\<lparr>ad_rule_id = Some (rule_id rule), ad_rule_name = rule_name rule,
                      ad_risk_score = risk_contribution rule_result,
                      ad_threshold_exceeded = Some (threshold_values rule_result),
                      ad_severity = Some (rule_severity_level rule)\<rparr>]
                else alerts_generated))
            else acc))"

definition perform_aml_monitoring :: "state \<Rightarrow> datetime \<Rightarrow> txn \<Rightarrow> error + monitoring_results" where
  "perform_aml_monitoring st now transaction =
     (case filter (\<lambda>c. cust_id c = txn_customer_id transaction) (customers st) of
        [] \<Rightarrow> Inl (ValueError ''Customer not found'')
      | customer # _ \<Rightarrow>
          (let active_rules =
                 filter (\<lambda>r. rule_status r = ''active'' \<and> rule_type r = ''transaction_monitoring'')
                   (rules st);
               (risk_score, risk_flags, alerts_generated) =
                 foldl (monitor_rule st now transaction customer) (0, [], []) active_rules;
               pattern_results = detect_transaction_patterns st now transaction customer;
               risk_score = risk_score + pr_risk_contribution pattern_results;
               risk_flags = dict_update risk_flags (pr_flags pattern_results);
               alerts_generated =
                 (if pr_alerts pattern_results \<noteq> [] then alerts_generated @ pr_alerts pattern_results
                  else alerts_generated);
               risk_score = min 100 (max 0 risk_score)
           in Inr \<lparr>mr_risk_score = risk_score,
                   mr_risk_flags = risk_flags,
                   mr_is_suspicious = (risk_score \<ge> 60),
                   mr_alerts_generated = alerts_generated,
                   mr_rules_triggered = length (filter (\<lambda>kv. snd kv) risk_flags)\<rparr>))"

section \<open>Audit sink\<close>

text \<open>
  Each service module has its own \<open>log_audit_event\<close>; they differ in the
  \<open>event_category\<close> they write, which is the first argument here. One call appends one
  row to \<open>audit_logs\<close>.
\<close>

definition log_audit_event ::
  "string \<Rightarrow> env \<Rightarrow> uuid \<Rightarrow> string \<Rightarrow> string \<Rightarrow> string \<Rightarrow> uuid option \<Rightarrow> nat option \<Rightarrow> state \<Rightarrow> state" where
  "log_audit_event category e uid event_type action resource_type resource_id records_affected st =
     (let (event_id, st) = uuid4 e st;
          (row_id, st) = uuid4 e st;
          audit_log = \<lparr>log_id = row_id, log_event_id = event_id, log_event_type = event_type,
                        log_event_category = category, log_user_id = uid, log_action = action,
                        log_resource_type = resource_type, log_resource_id = resource_id,
                        log_records_affected = records_affected,
                        log_regulatory_significance = True\<rparr>
      in st\<lparr>audit_logs := sync log_id audit_log (audit_logs st)\<rparr>)"

section \<open>Processing a transaction\<close>

definition create_alert_from_transaction :: "env \<Rightarrow> user \<Rightarrow> txn \<Rightarrow> state \<Rightarrow> alert_data \<Rightarrow> state" where
  "create_alert_from_transaction e u transaction st alert_data =
     (let (tag, st) = uuid4 e st;
          (row_id, st) = uuid4 e st;
          alert = \<lparr>alert_id = row_id,
                    alert_alert_id = ''TXN-'' @ strftime_Ymd (env_now e) @ ''-'' @ take 8 (uuid_str tag),
                    alert_alert_type = ''transaction_monitoring'',
                    alert_customer_id = txn_customer_id transaction,
                    alert_transaction_id = Some (txn_id transaction),
                    alert_rule_id = ad_rule_id alert_data,
                    alert_severity = (case ad_severity alert_data of None \<Rightarrow> ''medium'' | Some s \<Rightarrow> s),
                    alert_risk_score = ad_risk_score alert_data,
                    alert_triggered_rules = [ad_rule_name alert_data],
                    alert_threshold_values =
                      (case ad_threshold_exceeded alert_data of None \<Rightarrow> [] | Some d \<Rightarrow> d),
                    alert_status = ''open'',
                    alert_case_id = None,
                    alert_escalated_at = None,
                    alert_triggered_at = env_now e,
                    alert_resolved_at = None,
                    alert_resolution = None,
                    alert_resolution_notes = None,
                    alert_resolved_by = None,
                    alert_detection_method = ''rule_based'',
                    alert_regulatory_significance = True\<rparr>;
          st = st\<lparr>alerts := sync alert_id alert (alerts st)\<rparr>
      in log_audit_event ''transaction_monitoring'' e (user_id u) ''alert_generated'' ''create''
           ''alert'' (Some (alert_id alert)) None st)"

text \<open>
  \<open>process_transaction\<close> in the three steps its comments name: the \<open>Transaction(...)\<close>
  constructor call (\<open>new_transaction\<close>; \<open>tag\<close> is the UUID drawn for the reference
  number, \<open>row_id\<close> the one drawn for the primary key), the update of the transaction
  with the monitoring results (\<open>record_monitoring\<close>), and the writes.
\<close>

definition new_transaction ::
  "datetime \<Rightarrow> uuid \<Rightarrow> uuid \<Rightarrow> string \<Rightarrow> uuid \<Rightarrow> string \<Rightarrow> rat \<Rightarrow> string \<Rightarrow> string \<Rightarrow> string
     \<Rightarrow> string \<Rightarrow> string option \<Rightarrow> txn" where
  "new_transaction now tag row_id transaction_id customer_id transaction_type amount currency
       account_number transaction_method channel beneficiary_country =
     \<lparr>txn_id = row_id,
      txn_transaction_id = transaction_id,
      txn_reference_number = ''REF-'' @ strftime_Ymd now @ ''-'' @ take 8 (uuid_str tag),
      txn_transaction_type = transaction_type,
      txn_transaction_method = transaction_method,
      txn_currency = currency,
      txn_amount = amount,
      txn_customer_id = customer_id,
      txn_account_number = account_number,
      txn_beneficiary_country = beneficiary_country,
      txn_channel = channel,
      txn_transaction_date = now,
      txn_value_date = now,
      txn_status = ''completed'',
      txn_risk_score = 0,
      txn_risk_flags = [],
      txn_is_suspicious = False,
      txn_alert_count = 0,
      txn_structuring_indicator = False,
      txn_velocity_flag = False,
      txn_amount_threshold_flag = False,
      txn_unusual_pattern_flag = False,
      txn_above_ctr_threshold = (amount \<ge> 5000000),
      txn_cross_border = (beneficiary_country \<noteq> None \<and> beneficiary_country \<noteq> Some ''NG''),
      txn_cash_transaction = (lower transaction_method \<in> set [''cash'', ''atm_withdrawal''])\<rparr>"

definition record_monitoring :: "txn \<Rightarrow> monitoring_results \<Rightarrow> txn" where
  "record_monitoring transaction monitoring_results =
     transaction
       \<lparr>txn_risk_score := mr_risk_score monitoring_results,
        txn_risk_flags := mr_risk_flags monitoring_results,
        txn_is_suspicious := mr_is_suspicious monitoring_results,
        txn_alert_count := length (mr_alerts_generated monitoring_results),
        txn_structuring_indicator :=
          dict_get (mr_risk_flags monitoring_results) ''structuring'' False,
        txn_velocity_flag :=
          dict_get (mr_risk_flags monitoring_results) ''velocity'' False,
        txn_amount_threshold_flag :=
          dict_get (mr_risk_flags monitoring_results) ''amount_threshold'' False,
        txn_unusual_pattern_flag :=
          dict_get (mr_risk_flags monitoring_results) ''unusual_pattern'' False\<rparr>"

definition process_transaction ::
  "env \<Rightarrow> user \<Rightarrow> string \<Rightarrow> uuid \<Rightarrow> string \<Rightarrow> rat \<Rightarrow> string \<Rightarrow> string \<Rightarrow> string \<Rightarrow> string
     \<Rightarrow> string option \<Rightarrow> state \<Rightarrow> error + (txn \<times> state)" where
  "process_transaction e u transaction_id customer_id transaction_type amount currency
       account_number transaction_method channel beneficiary_country st =
     (let (tag, st) = uuid4 e st;
          (row_id, st) = uuid4 e st;
          transaction =
            new_transaction (env_now e) tag row_id transaction_id customer_id transaction_type
              amount currency account_number transaction_method channel beneficiary_country
      in case perform_aml_monitoring st (env_now e) transaction of
           Inl err \<Rightarrow> Inl err
         | Inr monitoring_results \<Rightarrow>
             (let transaction = record_monitoring transaction monitoring_results;
                  st = st\<lparr>transactions := sync txn_id transaction (transactions st)\<rparr>;
                  st = foldl (create_alert_from_transaction e u transaction) st
                         (mr_alerts_generated monitoring_results);
                  st = log_audit_event ''transaction_monitoring'' e (user_id u)
                         ''transaction_processed'' ''create'' ''transaction''
                         (Some (txn_id transaction)) None st
              in Inr (transaction, st)))"

section \<open>Rule registry\<close>






definition update_rule_thresholds ::
  "env \<Rightarrow> user \<Rightarrow> uuid \<Rightarrow> rat dict \<Rightarrow> state \<Rightarrow> error + (rule \<times> state)" where
  "update_rule_thresholds e u rid new_thresholds st =
     (case filter (\<lambda>r. rule_id r = rid) (rules st) of
        [] \<Rightarrow> Inl (ValueError ''Rule not found'')
      | rule # _ \<Rightarrow>
          (let rule = rule\<lparr>rule_thresholds := new_thresholds,
                          rule_updated_at := env_now e,
                          rule_last_modified_by := Some (user_id u),
                          rule_tuning_required := False\<rparr>;
               st = st\<lparr>rules :=
                      map (\<lambda>r. if rule_id r = rid
                                then r\<lparr>rule_thresholds := new_thresholds,
                                        rule_updated_at := env_now e,
                                        rule_last_modified_by := Some (user_id u),
                                        rule_tuning_required := False\<rparr>
                                else r) (rules st)\<rparr>;
               st = log_audit_event ''rules_management'' e (user_id u) ''rule_thresholds_updated''
                      ''update'' ''rule'' (Some (rule_id rule)) None st
           in Inr (rule, st)))"









section \<open>Case workflow\<close>

fun dec_str :: "nat \<Rightarrow> string" where
  "dec_str n = (if n < 10 then [digit_char n] else dec_str (n div 10) @ [digit_char n])"

declare dec_str.simps [simp del]

text \<open>The format \<open>{n:0wd}\<close>: at least \<open>w\<close> digits, padded with zeros on the left.\<close>

definition zero_pad :: "nat \<Rightarrow> nat \<Rightarrow> string" where
  "zero_pad w n = replicate (w - length (dec_str n)) (CHR ''0'') @ dec_str n"

definition generate_case_number :: "state \<Rightarrow> datetime \<Rightarrow> string" where
  "generate_case_number st now =
     (let year = year_of now;
          month = month_of now;
          count = length (filter (\<lambda>c. year_of (case_created_at c) = year \<and>
                                          month_of (case_created_at c) = month) (cases st)) + 1
      in ''CASE-'' @ dec_str (nat year) @ zero_pad 2 (nat month) @ ''-'' @ zero_pad 4 count)"

definition calculate_sla_deadline :: "datetime \<Rightarrow> int \<Rightarrow> string \<Rightarrow> datetime" where
  "calculate_sla_deadline now priority ctype =
     (let sla_hours = [(1, 4), (2, 24), (3, 72), (4, 168), (5, 336)];
          hours = (case map_of sla_hours priority of None \<Rightarrow> 72 | Some h \<Rightarrow> h);
          hours = (if ctype \<in> set [''sanctions_investigation'', ''terrorism_financing'']
                   then max 4 (hours div 2) else hours)
      in now + timedelta_hours hours)"

text \<open>\<open>determine_case_risk_level\<close>; \<open>max\<close> of no alerts raises \<open>ValueError\<close>.\<close>

definition determine_case_risk_level :: "alert list \<Rightarrow> error + string" where
  "determine_case_risk_level as =
     (case as of
        [] \<Rightarrow> Inl (ValueError ''max() arg is an empty sequence'')
      | a # rest \<Rightarrow>
          (let max_risk_score = foldl max (alert_risk_score a) (map alert_risk_score rest);
               alert_count = length as
           in Inr (if max_risk_score \<ge> 80 \<or> alert_count \<ge> 5 then ''critical''
                   else if max_risk_score \<ge> 60 \<or> alert_count \<ge> 3 then ''high''
                   else if max_risk_score \<ge> 40 \<or> alert_count \<ge> 2 then ''medium''
                   else ''low'')))"

text \<open>
  The first loop of \<open>create_case_from_alerts\<close>. \<open>customer_ids\<close> is a Python \<open>set\<close>; the
  model keeps its elements without repetition, in the order of their first insertion.
\<close>

definition set_add :: "'a \<Rightarrow> 'a list \<Rightarrow> 'a list" where
  "set_add x s = (if x \<in> set s then s else s @ [x])"

fun load_alerts ::
  "state \<Rightarrow> uuid list \<Rightarrow> alert list \<times> uuid list \<times> uuid list
     \<Rightarrow> error + (alert list \<times> uuid list \<times> uuid list)" where
  "load_alerts st [] acc = Inr acc"
| "load_alerts st (aid # rest) (as, customer_ids, transaction_ids) =
     (case filter (\<lambda>a. alert_id a = aid) (alerts st) of
        [] \<Rightarrow> Inl (ValueError (''Alert '' @ uuid_str aid @ '' not found''))
      | a # _ \<Rightarrow>
          load_alerts st rest
            (as @ [a], set_add (alert_customer_id a) customer_ids,
             (case alert_transaction_id a of
                None \<Rightarrow> transaction_ids
              | Some t \<Rightarrow> transaction_ids @ [t])))"

text \<open>
  \<open>list(customer_ids)\<close> lists the set in the interpreter's iteration order, which for a
  \<open>set\<close> is the order of the hash table's slots and not the order of insertion. The
  order is the parameter \<open>set_iter\<close>: a function from the elements (as inserted) to the
  list that iteration yields.
\<close>

definition create_case_from_alerts ::
  "(uuid list \<Rightarrow> uuid list) \<Rightarrow> env \<Rightarrow> user \<Rightarrow> uuid list \<Rightarrow> string \<Rightarrow> int \<Rightarrow> state
     \<Rightarrow> error + (aml_case \<times> state)" where
  "create_case_from_alerts set_iter e u alert_ids ctype priority st =
     (case load_alerts st alert_ids ([], [], []) of
        Inl err \<Rightarrow> Inl err
      | Inr (as, customer_ids, transaction_ids) \<Rightarrow>
          (case set_iter customer_ids of
             [] \<Rightarrow> Inl IndexError
           | primary_customer # others \<Rightarrow>
               (let related_customers = (if length customer_ids > 1 then others else []);
                    case_number = generate_case_number st (env_now e);
                    sla_deadline = calculate_sla_deadline (env_now e) priority ctype
                in case determine_case_risk_level as of
                     Inl err \<Rightarrow> Inl err
                   | Inr risk_level \<Rightarrow>
                       (let (row_id, st) = uuid4 e st;
                            c = \<lparr>case_id = row_id,
                                 case_number = case_number,
                                 case_type = ctype,
                                 case_category = ''aml'',
                                 case_customer_id = primary_customer,
                                 case_related_customers = related_customers,
                                 case_alert_ids = alert_ids,
                                 case_transaction_ids = transaction_ids,
                                 case_priority = priority,
                                 case_risk_level = risk_level,
                                 case_status = ''open'',
                                 case_assigned_to = user_id u,
                                 case_assigned_at = None,
                                 case_investigation_started_at = None,
                                 case_review_started_at = None,
                                 case_sla_deadline = Some sla_deadline,
                                 case_sla_breached = False,
                                 case_investigation_notes =
                                   ''Case created from alerts. Investigation pending.'',
                                 case_evidence_collected = [],
                                 case_interviews_conducted = [],
                                 case_decision = None,
                                 case_actions_taken = [],
                                 case_str_required = False,
                                 case_str_filed = False,
                                 case_str_reference = None,
                                 case_str_filed_date = None,
                                 case_closure_reason = None,
                                 case_closure_notes = None,
                                 case_closed_by = None,
                                 case_closed_at = None,
                                 case_created_at = env_now e,
                                 case_updated_at = env_now e,
                                 case_created_by = user_id u\<rparr>;
                            st = st\<lparr>cases := sync case_id c (cases st)\<rparr>;
                            st = foldl
                                   (\<lambda>st aid. st\<lparr>alerts :=
                                      map (\<lambda>a. if alert_id a = aid
                                                then a\<lparr>alert_case_id := Some (case_id c),
                                                        alert_status := ''escalated'',
                                                        alert_escalated_at := Some (env_now e)\<rparr>
                                                else a) (alerts st)\<rparr>)
                                   st alert_ids;
                            st = log_audit_event ''case_management'' e (user_id u) ''case_created''
                                   ''create'' ''case'' (Some (case_id c)) None st
                        in Inr (c, st)))))"

text \<open>The \<open>UPDATE alerts ... WHERE id = alert_id\<close> statement of \<open>close_case\<close>.\<close>

definition close_alert :: "env \<Rightarrow> user \<Rightarrow> string \<Rightarrow> string \<Rightarrow> state \<Rightarrow> uuid \<Rightarrow> state" where
  "close_alert e u decision closure_notes st aid =
     st\<lparr>alerts :=
        map (\<lambda>a. if alert_id a = aid
                  then a\<lparr>alert_status := ''closed'',
                          alert_resolved_at := Some (env_now e),
                          alert_resolved_by := Some (user_id u),
                          alert_resolution := Some decision,
                          alert_resolution_notes := Some closure_notes\<rparr>
                  else a) (alerts st)\<rparr>"

definition close_case ::
  "env \<Rightarrow> user \<Rightarrow> uuid \<Rightarrow> string \<Rightarrow> string \<Rightarrow> string \<Rightarrow> string list \<Rightarrow> state
     \<Rightarrow> error + (aml_case \<times> state)" where
  "close_case e u cid closure_reason closure_notes decision actions_taken st =
     (case filter (\<lambda>c. case_id c = cid) (cases st) of
        [] \<Rightarrow> Inl (ValueError ''Case not found'')
      | c # _ \<Rightarrow>
          (let timestamp = strftime_Y_m_d_HMS (env_now e);
               c = c\<lparr>case_status := ''closed'',
                     case_closed_at := Some (env_now e),
                     case_closed_by := Some (user_id u),
                     case_closure_reason := Some closure_reason,
                     case_closure_notes := Some closure_notes,
                     case_decision := Some decision,
                     case_actions_taken := actions_taken,
                     case_updated_at := env_now e,
                     case_investigation_notes :=
                       case_investigation_notes c @ [CHR 0x0A] @ ''['' @ timestamp @
                       ''] Case closed. Decision: '' @ decision @ ''. Reason: '' @ closure_reason\<rparr>;
               st = st\<lparr>cases := sync case_id c (cases st)\<rparr>;
               st = foldl (close_alert e u decision closure_notes) st (case_alert_ids c);
               st = log_audit_event ''case_management'' e (user_id u) ''case_closed'' ''close''
                      ''case'' (Some (case_id c)) None st
           in Inr (c, st)))"






text \<open>
  \<open>get_overdue_cases\<close> lists the cases whose deadline has passed and that are not closed,
  earliest deadline first (a case without a deadline is never selected), marks each listed
  case that is not yet marked as \<open>sla_breached\<close>, and logs one event that names no case.
\<close>

definition mark_breached :: "state \<Rightarrow> aml_case \<Rightarrow> state" where
  "mark_breached st c =
     (if \<not> case_sla_breached c then
        st\<lparr>cases := map (\<lambda>k. if case_id k = case_id c then k\<lparr>case_sla_breached := True\<rparr> else k)
                        (cases st)\<rparr>
      else st)"


section \<open>Customer service\<close>








section \<open>Reporting service\<close>









section \<open>Observations on rule results\<close>

text \<open>
  The blocks of \<open>apply_monitoring_rule\<close> that run after the structuring block fire under
  these conditions; each of them assigns \<open>risk_contribution\<close> anew.
\<close>

definition later_block_fires :: "txn \<Rightarrow> customer \<Rightarrow> rule \<Rightarrow> bool" where
  "later_block_fires t c r =
     ((has_key ''cross_border'' (rule_conditions r) \<and> txn_cross_border t) \<or>
      (has_key ''cash_monitoring'' (rule_conditions r) \<and> txn_cash_transaction t \<and>
         txn_amount t \<ge> dict_get (rule_thresholds r) ''cash_amount'' 500000) \<or>
      (has_key ''customer_risk'' (rule_conditions r) \<and>
         (cust_risk_category c = ''high'' \<or> cust_pep_status c)))"

text \<open>
  \<open>uuid.uuid4()\<close> is taken to return values that are pairwise distinct and differ from the
  primary keys of the stored audit rows: under \<open>fresh_uuids\<close> a \<open>sync\<close> of a new audit row
  inserts it. \<open>audit_row\<close> is the row that \<open>log_audit_event\<close> builds when the counter of
  drawn UUIDs stands at \<open>k\<close>.
\<close>

definition fresh_uuids :: "env \<Rightarrow> state \<Rightarrow> bool" where
  "fresh_uuids e st \<longleftrightarrow>
     inj (env_uuid4 e) \<and> (\<forall>l \<in> set (audit_logs st). \<forall>n \<ge> rng st. log_id l \<noteq> env_uuid4 e n)"

definition audit_row :: "string \<Rightarrow> env \<Rightarrow> uuid \<Rightarrow> string \<Rightarrow> string \<Rightarrow> string \<Rightarrow> uuid option \<Rightarrow> nat option \<Rightarrow> nat \<Rightarrow> audit_log" where
  "audit_row category e uid event_type action resource_type resource_id records_affected k =
     \<lparr>log_id = env_uuid4 e (k + 1), log_event_id = env_uuid4 e k, log_event_type = event_type,
      log_event_category = category, log_user_id = uid, log_action = action,
      log_resource_type = resource_type, log_resource_id = resource_id,
      log_records_affected = records_affected, log_regulatory_significance = True\<rparr>"


text \<open>
  The line that \<open>close_case\<close> appends to \<open>investigation_notes\<close>, and the columns its
  \<open>UPDATE alerts\<close> statement sets on one alert.
\<close>

definition closure_line :: "env \<Rightarrow> string \<Rightarrow> string \<Rightarrow> string" where
  "closure_line e decision closure_reason =
     [CHR 0x0A] @ ''['' @ strftime_Y_m_d_HMS (env_now e) @ ''] Case closed. Decision: '' @
     decision @ ''. Reason: '' @ closure_reason"

definition resolved :: "env \<Rightarrow> user \<Rightarrow> string \<Rightarrow> string \<Rightarrow> alert \<Rightarrow> alert" where
  "resolved e u decision closure_notes a =
     a\<lparr>alert_status := ''closed'',
       alert_resolved_at := Some (env_now e),
       alert_resolved_by := Some (user_id u),
       alert_resolution := Some decision,
       alert_resolution_notes := Some closure_notes\<rparr>"

section \<open>Example data\<close>

text \<open>
  Concrete rows used to run the operations: an empty database, a clock reading
  (2023-11-14 22:13:20), a source of fresh UUIDs, an analyst, and the rule
  \<open>CBN-VEL-001\<close> of \<open>standard_rules\<close> after activation.
\<close>

definition empty_state :: state where
  "empty_state = \<lparr>customers = [], transactions = [], rules = [], alerts = [], cases = [],
     reports = [], audit_logs = [], rng = 0\<rparr>"

definition demo_env :: env where
  "demo_env = \<lparr>env_now = 1700000000, env_uuid4 = (\<lambda>n. 4096 + n)\<rparr>"


definition analyst :: user where
  "analyst = \<lparr>user_id = 7\<rparr>"

definition cbn_vel_001 :: rule where
  "cbn_vel_001 =
     \<lparr>rule_id = 11, rule_name = ''Rapid Transaction Velocity'', rule_code = ''CBN-VEL-001'',
      rule_type = ''transaction_monitoring'',
      rule_conditions = [(''velocity_check'', True), (''structuring_detection'', True)],
      rule_thresholds = [(''transaction_count_24h'', 20), (''amount_24h'', 10000000)],
      rule_applies_to = ''all'', rule_customer_segments = [], rule_transaction_types = [],
      rule_channels = [],
      rule_risk_weight = 12 / 10, rule_severity_level = ''medium'', rule_status = ''active'',
      rule_effective_date = Some 1699000000, rule_test_results = None,
      rule_false_positive_rate = None, rule_effectiveness_score = None,
      rule_last_tested = Some 1698900000, rule_performance_reviewed = None,
      rule_tuning_required = False, rule_last_modified_by = None, rule_updated_at = 1699000000\<rparr>"

definition low_risk_customer :: customer where
  "low_risk_customer =
     \<lparr>cust_id = 1, cust_user_id = 7, cust_first_name = ''Ada'', cust_last_name = ''Obi'',
      cust_email = ''ada@example.com'', cust_phone = ''+2348000000000'',
      cust_date_of_birth = 315532800, cust_nationality = ''NG'',
      cust_customer_id = ''CUST-0001'', cust_bvn = None, cust_nin = None,
      cust_kyc_status = ''verified'', cust_kyc_level = ''tier1'',
      cust_address_line1 = ''1 Marina Road'', cust_address_line2 = None, cust_city = ''Lagos'',
      cust_state = ''Lagos'', cust_country = ''NG'', cust_postal_code = None,
      cust_risk_score = 10, cust_risk_category = ''low'', cust_pep_status = False,
      cust_sanctions_checked = False, cust_last_risk_assessment = None,
      cust_account_numbers = [''0123456789''], cust_account_types = [''savings''],
      cust_account_opening_date = 1600000000, cust_customer_since = 1600000000,
      cust_requires_enhanced_dd = False, cust_created_at = 1600000000,
      cust_updated_at = 1600000000, cust_created_by = 7\<rparr>"

text \<open>A stored mobile transfer of a customer: row id, customer, amount, date.\<close>

definition transfer :: "uuid \<Rightarrow> uuid \<Rightarrow> rat \<Rightarrow> datetime \<Rightarrow> txn" where
  "transfer i cid amount date =
     \<lparr>txn_id = i, txn_transaction_id = ''T'', txn_reference_number = ''REF'',
      txn_transaction_type = ''transfer'', txn_transaction_method = ''mobile'',
      txn_currency = ''NGN'', txn_amount = amount, txn_customer_id = cid,
      txn_account_number = ''0123456789'', txn_beneficiary_country = None,
      txn_channel = ''mobile_app'', txn_transaction_date = date, txn_value_date = date,
      txn_status = ''completed'', txn_risk_score = 0, txn_risk_flags = [],
      txn_is_suspicious = False, txn_alert_count = 0, txn_structuring_indicator = False,
      txn_velocity_flag = False, txn_amount_threshold_flag = False,
      txn_unusual_pattern_flag = False, txn_above_ctr_threshold = (amount \<ge> 5000000),
      txn_cross_border = False, txn_cash_transaction = False\<rparr>"

text \<open>Twenty transfers of 200,000 by customer 1 in the three hours before the clock reading.\<close>

definition twenty_transfers :: state where
  "twenty_transfers =
     empty_state\<lparr>customers := [low_risk_customer],
                  rules := [cbn_vel_001],
                  transactions := map (\<lambda>i. transfer (100 + i) 1 200000 1699990000) [0..<20]\<rparr>"

text \<open>Customers of the three risk profiles the customer-risk block distinguishes.\<close>

definition high_risk_customer :: customer where
  "high_risk_customer =
     \<lparr>cust_id = 3, cust_user_id = 7, cust_first_name = ''Chidi'', cust_last_name = ''Eze'',
      cust_email = ''chidi@example.com'', cust_phone = ''+2348000000000'',
      cust_date_of_birth = 315532800, cust_nationality = ''NG'',
      cust_customer_id = ''CUST-0003'', cust_bvn = None, cust_nin = None,
      cust_kyc_status = ''verified'', cust_kyc_level = ''tier1'',
      cust_address_line1 = ''1 Marina Road'', cust_address_line2 = None, cust_city = ''Lagos'',
      cust_state = ''Lagos'', cust_country = ''NG'', cust_postal_code = None,
      cust_risk_score = 85, cust_risk_category = ''high'', cust_pep_status = False,
      cust_sanctions_checked = False, cust_last_risk_assessment = None,
      cust_account_numbers = [''0123456789''], cust_account_types = [''savings''],
      cust_account_opening_date = 1600000000, cust_customer_since = 1600000000,
      cust_requires_enhanced_dd = False, cust_created_at = 1600000000,
      cust_updated_at = 1600000000, cust_created_by = 7\<rparr>"

definition high_risk_pep :: customer where
  "high_risk_pep =
     \<lparr>cust_id = 2, cust_user_id = 7, cust_first_name = ''Bola'', cust_last_name = ''Ade'',
      cust_email = ''bola@example.com'', cust_phone = ''+2348000000000'',
      cust_date_of_birth = 315532800, cust_nationality = ''NG'',
      cust_customer_id = ''CUST-0002'', cust_bvn = None, cust_nin = None,
      cust_kyc_status = ''verified'', cust_kyc_level = ''tier1'',
      cust_address_line1 = ''1 Marina Road'', cust_address_line2 = None, cust_city = ''Lagos'',
      cust_state = ''Lagos'', cust_country = ''NG'', cust_postal_code = None,
      cust_risk_score = 85, cust_risk_category = ''high'', cust_pep_status = True,
      cust_sanctions_checked = False, cust_last_risk_assessment = None,
      cust_account_numbers = [''0123456789''], cust_account_types = [''savings''],
      cust_account_opening_date = 1600000000, cust_customer_since = 1600000000,
      cust_requires_enhanced_dd = False, cust_created_at = 1600000000,
      cust_updated_at = 1600000000, cust_created_by = 7\<rparr>"

text \<open>The other three rules of \<open>standard_rules\<close> after activation, and a rule that combines
  structuring detection with the customer-risk check.\<close>

definition cbn_cash_001 :: rule where
  "cbn_cash_001 =
     \<lparr>rule_id = 10, rule_name = ''High Value Cash Transaction'', rule_code = ''CBN-CASH-001'',
      rule_type = ''transaction_monitoring'',
      rule_conditions = [(''amount_threshold'', True), (''cash_monitoring'', True)],
      rule_thresholds = [(''amount'', 5000000), (''cash_amount'', 5000000)],
      rule_applies_to = ''all'', rule_customer_segments = [],
      rule_transaction_types = [''deposit'', ''withdrawal''],
      rule_channels = [],
      rule_risk_weight = 15 / 10, rule_severity_level = ''high'', rule_status = ''active'',
      rule_effective_date = Some 1699000000, rule_test_results = None,
      rule_false_positive_rate = None, rule_effectiveness_score = None,
      rule_last_tested = Some 1698900000, rule_performance_reviewed = None,
      rule_tuning_required = False, rule_last_modified_by = None, rule_updated_at = 1699000000\<rparr>"

definition cbn_cb_001 :: rule where
  "cbn_cb_001 =
     \<lparr>rule_id = 12, rule_name = ''Cross-Border High Risk Country'', rule_code = ''CBN-CB-001'',
      rule_type = ''transaction_monitoring'',
      rule_conditions = [(''cross_border'', True), (''high_risk_country'', True)],
      rule_thresholds = [(''amount'', 1000000)],
      rule_applies_to = ''all'', rule_customer_segments = [], rule_transaction_types = [],
      rule_channels = [],
      rule_risk_weight = 2, rule_severity_level = ''high'', rule_status = ''active'',
      rule_effective_date = Some 1699000000, rule_test_results = None,
      rule_false_positive_rate = None, rule_effectiveness_score = None,
      rule_last_tested = Some 1698900000, rule_performance_reviewed = None,
      rule_tuning_required = False, rule_last_modified_by = None, rule_updated_at = 1699000000\<rparr>"

definition cbn_pep_001 :: rule where
  "cbn_pep_001 =
     \<lparr>rule_id = 13, rule_name = ''PEP Transaction Monitoring'', rule_code = ''CBN-PEP-001'',
      rule_type = ''transaction_monitoring'',
      rule_conditions = [(''customer_risk'', True), (''pep_monitoring'', True)],
      rule_thresholds = [(''amount'', 500000)],
      rule_applies_to = ''individuals'', rule_customer_segments = [], rule_transaction_types = [],
      rule_channels = [],
      rule_risk_weight = 18 / 10, rule_severity_level = ''high'', rule_status = ''active'',
      rule_effective_date = Some 1699000000, rule_test_results = None,
      rule_false_positive_rate = None, rule_effectiveness_score = None,
      rule_last_tested = Some 1698900000, rule_performance_reviewed = None,
      rule_tuning_required = False, rule_last_modified_by = None, rule_updated_at = 1699000000\<rparr>"

definition struct_risk_rule :: rule where
  "struct_risk_rule =
     \<lparr>rule_id = 14, rule_name = ''Structuring by high-risk customers'', rule_code = ''STRUCT-HR-001'',
      rule_type = ''transaction_monitoring'',
      rule_conditions = [(''structuring_detection'', True), (''customer_risk'', True)],
      rule_thresholds = [],
      rule_applies_to = ''all'', rule_customer_segments = [], rule_transaction_types = [],
      rule_channels = [],
      rule_risk_weight = 1, rule_severity_level = ''high'', rule_status = ''active'',
      rule_effective_date = Some 1699000000, rule_test_results = None,
      rule_false_positive_rate = None, rule_effectiveness_score = None,
      rule_last_tested = Some 1698900000, rule_performance_reviewed = None,
      rule_tuning_required = False, rule_last_modified_by = None, rule_updated_at = 1699000000\<rparr>"

text \<open>Three transfers of 4,800,000, 4,900,000 and 4,950,000 by one customer in the fourteen
  hours before the clock reading.\<close>

definition near_threshold_history :: "uuid \<Rightarrow> state" where
  "near_threshold_history cid =
     empty_state\<lparr>transactions :=
       [transfer 101 cid 4800000 1699950000, transfer 102 cid 4900000 1699960000,
        transfer 103 cid 4950000 1699970000]\<rparr>"

text \<open>A high-risk customer who is also a PEP sends 2,000,000 to Iran while the four standard
  rules are active.\<close>

definition pep_scenario :: state where
  "pep_scenario =
     empty_state\<lparr>customers := [high_risk_pep],
                  rules := [cbn_cash_001, cbn_vel_001, cbn_cb_001, cbn_pep_001]\<rparr>"

definition transfer_to_iran :: txn where
  "transfer_to_iran =
     (transfer 300 2 2000000 1700000000)
       \<lparr>txn_beneficiary_country := Some ''IR'', txn_cross_border := True\<rparr>"

text \<open>Customer 1 has made the three near-threshold transfers while \<open>CBN-VEL-001\<close> is the
  active rule.\<close>

definition structuring_scenario :: state where
  "structuring_scenario =
     (near_threshold_history 1)\<lparr>customers := [low_risk_customer], rules := [cbn_vel_001]\<rparr>"

text \<open>An open case of customer 2 with two escalated alerts, one of customer 2 and one of
  customer 1.\<close>

definition escalated_alert :: "uuid \<Rightarrow> uuid \<Rightarrow> uuid \<Rightarrow> rat \<Rightarrow> alert" where
  "escalated_alert i cust kase score =
     \<lparr>alert_id = i, alert_alert_id = ''TXN-20231113-0000003d'',
      alert_alert_type = ''transaction_monitoring'', alert_customer_id = cust,
      alert_transaction_id = None, alert_rule_id = None, alert_severity = ''medium'',
      alert_risk_score = score, alert_triggered_rules = [''Unusual Amount Pattern''],
      alert_threshold_values = [], alert_status = ''escalated'', alert_case_id = Some kase,
      alert_escalated_at = Some 1699900000, alert_triggered_at = 1699890000,
      alert_resolved_at = None, alert_resolution = None,
      alert_resolution_notes = None, alert_resolved_by = None,
      alert_detection_method = ''rule_based'', alert_regulatory_significance = True\<rparr>"

definition open_case :: aml_case where
  "open_case =
     \<lparr>case_id = 50, case_number = ''CASE-202311-0001'', case_type = ''suspicious_activity'',
      case_category = ''aml'', case_customer_id = 2, case_related_customers = [1],
      case_alert_ids = [61, 62], case_transaction_ids = [], case_priority = 3,
      case_risk_level = ''medium'', case_status = ''open'', case_assigned_to = 7,
      case_assigned_at = None, case_investigation_started_at = None,
      case_review_started_at = None, case_sla_deadline = Some 1700159200,
      case_sla_breached = False,
      case_investigation_notes = ''Case created from alerts. Investigation pending.'',
      case_evidence_collected = [], case_interviews_conducted = [],
      case_decision = None, case_actions_taken = [], case_str_required = False,
      case_str_filed = False, case_str_reference = None, case_str_filed_date = None,
      case_closure_reason = None, case_closure_notes = None, case_closed_by = None,
      case_closed_at = None, case_created_at = 1699900000, case_updated_at = 1699900000,
      case_created_by = 7\<rparr>"

definition case_scenario :: state where
  "case_scenario =
     empty_state\<lparr>cases := [open_case],
                  alerts := [escalated_alert 61 2 50 15, escalated_alert 62 1 50 15]\<rparr>"

text \<open>
  An iteration order for \<open>set\<close>: CPython keeps a set of up to four UUIDs in a table of
  eight slots, an element with hash \<open>h\<close> in slot \<open>h mod 8\<close> when that slot is free, and
  iterates the slots in ascending order; the hash of a UUID is its integer value modulo
  \<open>2^61 - 1\<close>. \<open>slot_order\<close> lists elements by slot (for elements in different slots).
\<close>

definition cpython_slot :: "uuid \<Rightarrow> nat" where
  "cpython_slot u = (u mod (2 ^ 61 - 1)) mod 8"

definition slot_order :: "uuid list \<Rightarrow> uuid list" where
  "slot_order xs = sort_key cpython_slot xs"

text \<open>Two open alerts: alert 61 of customer 2 and alert 62 of customer 1.\<close>

definition two_customer_alerts :: state where
  "two_customer_alerts =
     empty_state\<lparr>alerts := [(escalated_alert 61 2 0 45)\<lparr>alert_status := ''open'', alert_case_id := None, alert_escalated_at := None\<rparr>,
                             (escalated_alert 62 1 0 30)\<lparr>alert_status := ''open'', alert_case_id := None, alert_escalated_at := None\<rparr>]\<rparr>"

section \<open>Velocity checks and rule thresholds\<close>

lemma velocity_rules_entry:
  "map_of (threshold_values (velocity_rules st now t c r res)) ''velocity'' =
   (if has_key ''velocity_check'' (rule_conditions r) \<and> vr_threshold_exceeded (check_transaction_velocity st now t c)
    then Some (Velocity (check_transaction_velocity st now t c))
    else map_of (threshold_values res) ''velocity'')"
  by (simp add: velocity_rules_def Let_def dict_set_def update_conv')

lemma velocity_entry_kept:
  "map_of (threshold_values (amount_rules t r res)) ''velocity'' = map_of (threshold_values res) ''velocity''"
  "map_of (threshold_values (structuring_rules st now t c r res)) ''velocity'' = map_of (threshold_values res) ''velocity''"
  "threshold_values (cross_border_rules t r res) = threshold_values res"
  "threshold_values (cash_rules t r res) = threshold_values res"
  "threshold_values (customer_risk_rules c r res) = threshold_values res"
  by (simp_all add: amount_rules_def structuring_rules_def cross_border_rules_def cash_rules_def
        customer_risk_rules_def Let_def dict_set_def update_conv')

lemma apply_monitoring_rule_velocity_entry:
  "map_of (threshold_values (apply_monitoring_rule st now t c r)) ''velocity'' =
   (if has_key ''velocity_check'' (rule_conditions r) \<and> vr_threshold_exceeded (check_transaction_velocity st now t c)
    then Some (Velocity (check_transaction_velocity st now t c)) else None)"
  by (simp add: apply_monitoring_rule_def Let_def velocity_entry_kept velocity_rules_entry)

lemma check_transaction_velocity_same_transactions:
  "transactions st' = transactions st \<Longrightarrow>
   check_transaction_velocity st' now t c = check_transaction_velocity st now t c"
  by (simp add: check_transaction_velocity_def)

lemma transactions_log_audit_event [simp]:
  "transactions (log_audit_event cat e uid ty act rt rid n st) = transactions st"
  by (simp add: log_audit_event_def uuid4_def Let_def split: prod.splits)

lemma update_rule_thresholds_result:
  "update_rule_thresholds e u rid th st = Inr (r', st') \<Longrightarrow>
   transactions st' = transactions st \<and>
   rules st' = map (\<lambda>r. if rule_id r = rid
                          then r\<lparr>rule_thresholds := th, rule_updated_at := env_now e,
                                  rule_last_modified_by := Some (user_id u),
                                  rule_tuning_required := False\<rparr>
                          else r) (rules st)"
  by (auto simp: update_rule_thresholds_def Let_def log_audit_event_def uuid4_def split: list.splits prod.splits)

text \<open>
  Claim C10. For a rule that enables \<open>velocity_check\<close>, the velocity entry of the rule
  result is the same whatever the rule's thresholds map holds, and it is present exactly
  when the customer's stored transactions of the preceding 24 hours number at least 50 or
  sum to at least 10,000,000. After \<open>update_rule_thresholds\<close>, every stored rule yields
  the velocity entry it yielded before.
\<close>

theorem velocity_trigger_ignores_thresholds:
  assumes "has_key ''velocity_check'' (rule_conditions r)"
  shows "map_of (threshold_values (apply_monitoring_rule st now t c (r\<lparr>rule_thresholds := th\<rparr>))) ''velocity''
           = map_of (threshold_values (apply_monitoring_rule st now t c r)) ''velocity''
       \<and> (has_key ''velocity'' (threshold_values (apply_monitoring_rule st now t c r)) \<longleftrightarrow>
            (let recent = filter (\<lambda>x. txn_customer_id x = cust_id c \<and>
                                       txn_transaction_date x \<ge> now - 86400) (transactions st)
             in length recent \<ge> 50 \<or> sum_list (map txn_amount recent) \<ge> 10000000))
       \<and> (case update_rule_thresholds e u rid th st of
             Inl err \<Rightarrow> True
           | Inr (r', st') \<Rightarrow>
               map (\<lambda>x. map_of (threshold_values (apply_monitoring_rule st' now t c x)) ''velocity'') (rules st')
               = map (\<lambda>x. map_of (threshold_values (apply_monitoring_rule st now t c x)) ''velocity'') (rules st))"
proof (intro conjI)
  show "map_of (threshold_values (apply_monitoring_rule st now t c (r\<lparr>rule_thresholds := th\<rparr>))) ''velocity''
           = map_of (threshold_values (apply_monitoring_rule st now t c r)) ''velocity''"
    by (simp add: apply_monitoring_rule_velocity_entry)
  show "has_key ''velocity'' (threshold_values (apply_monitoring_rule st now t c r)) \<longleftrightarrow>
            (let recent = filter (\<lambda>x. txn_customer_id x = cust_id c \<and>
                                       txn_transaction_date x \<ge> now - 86400) (transactions st)
             in length recent \<ge> 50 \<or> sum_list (map txn_amount recent) \<ge> 10000000)"
    using assms
    by (simp add: has_key_def apply_monitoring_rule_velocity_entry check_transaction_velocity_def
          timedelta_hours_def Let_def)
  show "case update_rule_thresholds e u rid th st of
             Inl err \<Rightarrow> True
           | Inr (r', st') \<Rightarrow>
               map (\<lambda>x. map_of (threshold_values (apply_monitoring_rule st' now t c x)) ''velocity'') (rules st')
               = map (\<lambda>x. map_of (threshold_values (apply_monitoring_rule st now t c x)) ''velocity'') (rules st)"
  proof (cases "update_rule_thresholds e u rid th st")
    case (Inl a)
    then show ?thesis by simp
  next
    case (Inr p)
    obtain r' st' where p: "p = (r', st')" by (cases p)
    from update_rule_thresholds_result[OF Inr[unfolded p]]
    have tr: "transactions st' = transactions st"
      and ru: "rules st' = map (\<lambda>r. if rule_id r = rid
                          then r\<lparr>rule_thresholds := th, rule_updated_at := env_now e,
                                  rule_last_modified_by := Some (user_id u),
                                  rule_tuning_required := False\<rparr>
                          else r) (rules st)" by simp_all
    show ?thesis
      by (simp add: Inr p ru apply_monitoring_rule_velocity_entry
            check_transaction_velocity_same_transactions[OF tr] comp_def)
  qed
qed

text \<open>
  The seeded rule \<open>CBN-VEL-001\<close> carries the threshold \<open>transaction_count_24h = 20\<close>; with
  twenty transfers in the window it does not fire, with this threshold or with another.
\<close>

theorem velocity_trigger_ignores_thresholds_witness:
  "has_key ''velocity_check'' (rule_conditions cbn_vel_001) \<and>
   map_of (threshold_values (apply_monitoring_rule twenty_transfers 1700000000
             (transfer 200 1 200000 1700000000) low_risk_customer
             (cbn_vel_001\<lparr>rule_thresholds := [(''transaction_count_24h'', 5)]\<rparr>))) ''velocity''
     = map_of (threshold_values (apply_monitoring_rule twenty_transfers 1700000000
             (transfer 200 1 200000 1700000000) low_risk_customer cbn_vel_001)) ''velocity'' \<and>
   \<not> has_key ''velocity'' (threshold_values (apply_monitoring_rule twenty_transfers 1700000000
             (transfer 200 1 200000 1700000000) low_risk_customer cbn_vel_001))"
proof -
  have h: "has_key ''velocity_check'' (rule_conditions cbn_vel_001)"
    by (simp add: has_key_def cbn_vel_001_def)
  have n: "length (transactions twenty_transfers) = 20"
    by (simp add: twenty_transfers_def empty_state_def)
  have f: "filter (\<lambda>x. txn_customer_id x = cust_id low_risk_customer \<and>
                        1699913600 \<le> txn_transaction_date x) (transactions twenty_transfers)
           = transactions twenty_transfers"
    by (simp add: twenty_transfers_def empty_state_def low_risk_customer_def transfer_def)
  have s: "sum_list (map txn_amount (transactions twenty_transfers)) = 4000000"
    by (simp add: twenty_transfers_def empty_state_def transfer_def comp_def sum_list_triv)
  from velocity_trigger_ignores_thresholds[OF h, of twenty_transfers 1700000000
      "transfer 200 1 200000 1700000000" low_risk_customer "[(''transaction_count_24h'', 5)]"]
  show ?thesis using h by (simp add: f n s Let_def)
qed

section \<open>Structuring detection\<close>

lemma detect_structuring_likely:
  "sr_likely_structuring (detect_structuring st now t c) \<longleftrightarrow>
     (let band = filter (\<lambda>x. txn_customer_id x = cust_id c \<and> txn_transaction_date x \<ge> now - 86400 \<and>
                              4000000 \<le> txn_amount x \<and> txn_amount x \<le> 4950000) (transactions st)
      in length band \<ge> 3 \<and> sum_list (map txn_amount band) > 5000000)"
  by (simp add: detect_structuring_def timedelta_days_def Let_def)

lemma structuring_rules_entry:
  "map_of (threshold_values (structuring_rules st now t c r res)) ''structuring'' =
   (if has_key ''structuring_detection'' (rule_conditions r) \<and> sr_likely_structuring (detect_structuring st now t c)
    then Some (Structuring (detect_structuring st now t c))
    else map_of (threshold_values res) ''structuring'')"
  by (simp add: structuring_rules_def Let_def dict_set_def update_conv')

lemma structuring_entry_kept:
  "map_of (threshold_values (amount_rules t r res)) ''structuring'' = map_of (threshold_values res) ''structuring''"
  "map_of (threshold_values (velocity_rules st now t c r res)) ''structuring'' = map_of (threshold_values res) ''structuring''"
  by (simp_all add: amount_rules_def velocity_rules_def Let_def dict_set_def update_conv')

lemma apply_monitoring_rule_structuring_entry:
  "map_of (threshold_values (apply_monitoring_rule st now t c r)) ''structuring'' =
   (if has_key ''structuring_detection'' (rule_conditions r) \<and> sr_likely_structuring (detect_structuring st now t c)
    then Some (Structuring (detect_structuring st now t c)) else None)"
  by (simp add: apply_monitoring_rule_def Let_def velocity_entry_kept structuring_entry_kept structuring_rules_entry)

text \<open>Flags once set stay set.\<close>

lemma later_blocks_keep_flags:
  "triggered res \<Longrightarrow> triggered (cross_border_rules t r res)"
  "triggered res \<Longrightarrow> triggered (cash_rules t r res)"
  "triggered res \<Longrightarrow> triggered (customer_risk_rules c r res)"
  "alert_required res \<Longrightarrow> alert_required (cross_border_rules t r res)"
  "alert_required res \<Longrightarrow> alert_required (cash_rules t r res)"
  "alert_required res \<Longrightarrow> alert_required (customer_risk_rules c r res)"
  by (simp_all add: cross_border_rules_def cash_rules_def customer_risk_rules_def Let_def)

lemma structuring_rules_fired:
  "has_key ''structuring_detection'' (rule_conditions r) \<Longrightarrow>
   sr_likely_structuring (detect_structuring st now t c) \<Longrightarrow>
   triggered (structuring_rules st now t c r res) \<and>
   alert_required (structuring_rules st now t c r res) \<and>
   risk_contribution (structuring_rules st now t c r res) = rule_risk_weight r * 25"
  by (simp add: structuring_rules_def Let_def)

lemma later_blocks_idle:
  "\<not> later_block_fires t c r \<Longrightarrow>
   customer_risk_rules c r (cash_rules t r (cross_border_rules t r res)) = res"
  by (auto simp: later_block_fires_def cross_border_rules_def cash_rules_def customer_risk_rules_def Let_def)

lemma apply_monitoring_rule_structuring_fired:
  assumes "has_key ''structuring_detection'' (rule_conditions r)"
    and "sr_likely_structuring (detect_structuring st now t c)"
  shows "triggered (apply_monitoring_rule st now t c r)"
    and "alert_required (apply_monitoring_rule st now t c r)"
    and "\<not> later_block_fires t c r \<Longrightarrow> risk_contribution (apply_monitoring_rule st now t c r) = rule_risk_weight r * 25"
  using structuring_rules_fired[OF assms]
  by (simp_all add: apply_monitoring_rule_def Let_def later_blocks_keep_flags later_blocks_idle)

lemma apply_monitoring_rule_customer_risk:
  "has_key ''customer_risk'' (rule_conditions r) \<Longrightarrow>
   risk_contribution (apply_monitoring_rule st now t c r) =
     (if cust_risk_category c = ''high'' then rule_risk_weight r * 10
      else if cust_pep_status c then rule_risk_weight r * 15
      else risk_contribution (cash_rules t r (cross_border_rules t r
             (structuring_rules st now t c r (velocity_rules st now t c r
               (amount_rules t r \<lparr>triggered = False, risk_contribution = 0, alert_required = False,
                     threshold_values = []\<rparr>))))))"
  by (simp add: apply_monitoring_rule_def customer_risk_rules_def Let_def)

lemma near_threshold_band:
  "filter (\<lambda>x. txn_customer_id x = cid \<and> 1699913600 \<le> txn_transaction_date x \<and>
                4000000 \<le> txn_amount x \<and> txn_amount x \<le> 4950000)
      (transactions (near_threshold_history cid)) = transactions (near_threshold_history cid)"
  by (simp add: near_threshold_history_def empty_state_def transfer_def)

lemma near_threshold_sum:
  "length (transactions (near_threshold_history cid)) = 3"
  "sum_list (map txn_amount (transactions (near_threshold_history cid))) = 14650000"
  by (simp_all add: near_threshold_history_def empty_state_def transfer_def)

text \<open>
  Claim C7, as amended. The band of the query is the closed interval from
  0.8 \<times> 5,000,000 = 4,000,000 to 0.99 \<times> 5,000,000 = 4,950,000, over the customer's stored
  transactions dated within the 24 hours before the clock reading. For a rule that enables
  \<open>structuring_detection\<close>, the structuring entry of the rule result is present exactly
  when at least three stored transactions lie in the band and their sum exceeds 5,000,000.
  When it is present the rule is triggered and requires an alert, and the rule's
  contribution is weight \<times> 25 provided no later block (cross-border, cash, customer
  risk) fires: a later block that fires assigns the contribution anew.
\<close>

theorem structuring_detection_trigger:
  assumes "has_key ''structuring_detection'' (rule_conditions r)"
  shows "(let band = filter (\<lambda>x. txn_customer_id x = cust_id c \<and> txn_transaction_date x \<ge> now - 86400 \<and>
                              4000000 \<le> txn_amount x \<and> txn_amount x \<le> 4950000) (transactions st);
              res = apply_monitoring_rule st now t c r;
              fired = has_key ''structuring'' (threshold_values res)
          in (fired \<longleftrightarrow> length band \<ge> 3 \<and> sum_list (map txn_amount band) > 5000000) \<and>
             (fired \<longrightarrow> triggered res \<and> alert_required res) \<and>
             (fired \<and> \<not> later_block_fires t c r \<longrightarrow> risk_contribution res = rule_risk_weight r * 25))"
proof -
  have fired: "has_key ''structuring'' (threshold_values (apply_monitoring_rule st now t c r))
                 \<longleftrightarrow> sr_likely_structuring (detect_structuring st now t c)"
    using assms by (simp add: has_key_def apply_monitoring_rule_structuring_entry)
  show ?thesis
    unfolding Let_def fired
    using apply_monitoring_rule_structuring_fired[OF assms, of st now t c]
      detect_structuring_likely[of st now t c]
    by (auto simp: Let_def)
qed

text \<open>
  Three prior transfers of 4,800,000, 4,900,000 and 4,950,000 within 24 hours make the
  seeded rule \<open>CBN-VEL-001\<close> (weight 1.2) fire with contribution 30 and an alert.
\<close>

theorem structuring_detection_trigger_witness:
  "has_key ''structuring_detection'' (rule_conditions cbn_vel_001) \<and>
   has_key ''structuring'' (threshold_values (apply_monitoring_rule (near_threshold_history 1) 1700000000
       (transfer 200 1 4900000 1700000000) low_risk_customer cbn_vel_001)) \<and>
   triggered (apply_monitoring_rule (near_threshold_history 1) 1700000000
       (transfer 200 1 4900000 1700000000) low_risk_customer cbn_vel_001) \<and>
   alert_required (apply_monitoring_rule (near_threshold_history 1) 1700000000
       (transfer 200 1 4900000 1700000000) low_risk_customer cbn_vel_001) \<and>
   risk_contribution (apply_monitoring_rule (near_threshold_history 1) 1700000000
       (transfer 200 1 4900000 1700000000) low_risk_customer cbn_vel_001) = 30"
proof -
  have h: "has_key ''structuring_detection'' (rule_conditions cbn_vel_001)"
    by (simp add: has_key_def cbn_vel_001_def)
  have idle: "\<not> later_block_fires (transfer 200 1 4900000 1700000000) low_risk_customer cbn_vel_001"
    by (simp add: later_block_fires_def has_key_def cbn_vel_001_def)
  have c: "cust_id low_risk_customer = 1" and w: "rule_risk_weight cbn_vel_001 = 12 / 10"
    by (simp_all add: low_risk_customer_def cbn_vel_001_def)
  from structuring_detection_trigger[OF h, of low_risk_customer 1700000000 "near_threshold_history 1"
      "transfer 200 1 4900000 1700000000"]
  show ?thesis using h idle
    by (simp add: Let_def c w near_threshold_band near_threshold_sum)
qed

text \<open>
  The claim as stated fails for a rule that also enables \<open>customer_risk\<close>: for a high-risk
  customer the structuring block fires, and the customer-risk block then replaces the
  contribution by weight \<times> 10.
\<close>

theorem structuring_contribution_counterexample:
  "has_key ''structuring_detection'' (rule_conditions struct_risk_rule) \<and>
   has_key ''structuring'' (threshold_values (apply_monitoring_rule (near_threshold_history 3) 1700000000
       (transfer 200 3 4900000 1700000000) high_risk_customer struct_risk_rule)) \<and>
   risk_contribution (apply_monitoring_rule (near_threshold_history 3) 1700000000
       (transfer 200 3 4900000 1700000000) high_risk_customer struct_risk_rule)
     \<noteq> rule_risk_weight struct_risk_rule * 25"
proof -
  have h: "has_key ''structuring_detection'' (rule_conditions struct_risk_rule)"
    and k: "has_key ''customer_risk'' (rule_conditions struct_risk_rule)"
    by (simp_all add: has_key_def struct_risk_rule_def)
  have c: "cust_id high_risk_customer = 3" "cust_risk_category high_risk_customer = ''high''"
    and w: "rule_risk_weight struct_risk_rule = 1"
    by (simp_all add: high_risk_customer_def struct_risk_rule_def)
  have fired: "sr_likely_structuring (detect_structuring (near_threshold_history 3) 1700000000
       (transfer 200 3 4900000 1700000000) high_risk_customer)"
    by (simp add: detect_structuring_likely Let_def c near_threshold_band near_threshold_sum)
  show ?thesis
    using h fired
    by (simp add: has_key_def[of "''structuring''"] apply_monitoring_rule_structuring_entry
          apply_monitoring_rule_customer_risk[OF k] c w)
qed

section \<open>The monitoring pass on concrete transactions\<close>

lemmas block_defs = amount_rules_def velocity_rules_def structuring_rules_def cross_border_rules_def
  cash_rules_def customer_risk_rules_def

lemma apply_monitoring_rule_same_transactions:
  "transactions st' = transactions st \<Longrightarrow>
   apply_monitoring_rule st' now t c r = apply_monitoring_rule st now t c r"
proof -
  assume a: "transactions st' = transactions st"
  have v: "check_transaction_velocity st' now t c = check_transaction_velocity st now t c"
    by (simp add: check_transaction_velocity_def a)
  have d: "detect_structuring st' now t c = detect_structuring st now t c"
    by (simp add: detect_structuring_def a)
  show ?thesis
    by (simp add: apply_monitoring_rule_def velocity_rules_def structuring_rules_def v d Let_def)
qed

lemma perform_aml_monitoring_same_tables:
  assumes "customers st' = customers st" "rules st' = rules st" "transactions st' = transactions st"
  shows "perform_aml_monitoring st' now t = perform_aml_monitoring st now t"
proof -
  have m: "monitor_rule st' now t c = monitor_rule st now t c" for c
    by (intro ext) (simp add: monitor_rule_def apply_monitoring_rule_same_transactions[OF assms(3)])
  have p: "detect_transaction_patterns st' now t c = detect_transaction_patterns st now t c" for c
    by (simp add: detect_transaction_patterns_def assms(3))
  show ?thesis
    by (simp add: perform_aml_monitoring_def assms m p split: list.splits)
qed

lemma perform_aml_monitoring_rng [simp]:
  "perform_aml_monitoring (st\<lparr>rng := n\<rparr>) now t = perform_aml_monitoring st now t"
  by (rule perform_aml_monitoring_same_tables) simp_all

subsection \<open>A customer who is both high-risk and a PEP\<close>

lemma pep_rule_result:
  "apply_monitoring_rule st now t high_risk_pep cbn_pep_001 =
     \<lparr>triggered = True, risk_contribution = 18, alert_required = False, threshold_values = []\<rparr>"
  by (simp add: apply_monitoring_rule_def block_defs has_key_def cbn_pep_001_def high_risk_pep_def Let_def)

lemma cb_rule_result:
  "apply_monitoring_rule st now transfer_to_iran high_risk_pep cbn_cb_001 =
     \<lparr>triggered = True, risk_contribution = 60, alert_required = True, threshold_values = []\<rparr>"
  by (simp add: apply_monitoring_rule_def block_defs has_key_def cbn_cb_001_def transfer_to_iran_def transfer_def Let_def)

lemma cash_rule_result:
  "apply_monitoring_rule st now transfer_to_iran high_risk_pep cbn_cash_001 =
     \<lparr>triggered = False, risk_contribution = 0, alert_required = False, threshold_values = []\<rparr>"
  by (simp add: apply_monitoring_rule_def block_defs has_key_def dict_get_def cbn_cash_001_def transfer_to_iran_def transfer_def Let_def)

lemma vel_rule_result:
  "apply_monitoring_rule pep_scenario 1700000000 transfer_to_iran high_risk_pep cbn_vel_001 =
     \<lparr>triggered = False, risk_contribution = 0, alert_required = False, threshold_values = []\<rparr>"
  by (simp add: apply_monitoring_rule_def block_defs has_key_def cbn_vel_001_def
      check_transaction_velocity_def detect_structuring_def pep_scenario_def empty_state_def Let_def)

lemma pep_patterns:
  "detect_transaction_patterns pep_scenario 1700000000 transfer_to_iran high_risk_pep =
     \<lparr>pr_risk_contribution = 8, pr_flags = [(''round_amount'', True)], pr_alerts = []\<rparr>"
  by (simp add: detect_transaction_patterns_def Let_def hour_of_def py_mod_def dict_set_def
        transfer_to_iran_def transfer_def pep_scenario_def empty_state_def)

lemma pep_monitoring:
  "perform_aml_monitoring pep_scenario 1700000000 transfer_to_iran =
     Inr \<lparr>mr_risk_score = 86,
          mr_risk_flags = [(''cbn-cb-001'', True), (''cbn-pep-001'', True), (''round_amount'', True)],
          mr_is_suspicious = True,
          mr_alerts_generated =
            [\<lparr>ad_rule_id = Some 12, ad_rule_name = ''Cross-Border High Risk Country'',
              ad_risk_score = 60, ad_threshold_exceeded = Some [], ad_severity = Some ''high''\<rparr>],
          mr_rules_triggered = 3\<rparr>"
proof -
  have cust: "filter (\<lambda>c. cust_id c = txn_customer_id transfer_to_iran) (customers pep_scenario) = [high_risk_pep]"
    by (simp add: pep_scenario_def empty_state_def high_risk_pep_def transfer_to_iran_def transfer_def)
  have act: "filter (\<lambda>r. rule_status r = ''active'' \<and> rule_type r = ''transaction_monitoring'') (rules pep_scenario)
       = [cbn_cash_001, cbn_vel_001, cbn_cb_001, cbn_pep_001]"
    by (simp add: pep_scenario_def empty_state_def cbn_cash_001_def cbn_vel_001_def cbn_cb_001_def cbn_pep_001_def)
  have codes: "lower (rule_code cbn_cb_001) = ''cbn-cb-001''" "lower (rule_code cbn_pep_001) = ''cbn-pep-001''"
    by (simp_all add: lower_def lower_char_def cbn_cb_001_def cbn_pep_001_def)
  have fold: "foldl (monitor_rule pep_scenario 1700000000 transfer_to_iran high_risk_pep) (0, [], [])
                [cbn_cash_001, cbn_vel_001, cbn_cb_001, cbn_pep_001]
     = (78, [(''cbn-cb-001'', True), (''cbn-pep-001'', True)],
        [\<lparr>ad_rule_id = Some 12, ad_rule_name = ''Cross-Border High Risk Country'',
              ad_risk_score = 60, ad_threshold_exceeded = Some [], ad_severity = Some ''high''\<rparr>])"
    by (simp add: monitor_rule_def pep_rule_result cb_rule_result cash_rule_result vel_rule_result codes
          dict_set_def)
       (simp add: cbn_cb_001_def)
  show ?thesis
    by (simp add: perform_aml_monitoring_def cust act fold pep_patterns Let_def dict_update_def dict_set_def del: foldl_Cons) simp
qed

text \<open>
  Claim C1 says that a high-risk customer who is also a PEP gets both contributions of the
  customer-risk block (weight \<times> 10 and weight \<times> 15) and an alert, so that a transfer
  of 2,000,000 to Iran by such a customer yields two alerts. The block is an
  \<open>if\<close>/\<open>elif\<close>: for a high-risk customer the PEP branch is never reached. The seeded
  rule \<open>CBN-PEP-001\<close> contributes weight \<times> 10 = 18 and requires no alert, and the
  monitoring pass generates one alert (the cross-border one) with risk score 86.
\<close>

theorem high_risk_pep_customer_risk_evaluation:
  "risk_contribution (apply_monitoring_rule pep_scenario 1700000000 transfer_to_iran high_risk_pep
       cbn_pep_001) = rule_risk_weight cbn_pep_001 * 10 \<and>
   \<not> alert_required (apply_monitoring_rule pep_scenario 1700000000 transfer_to_iran high_risk_pep
       cbn_pep_001) \<and>
   (case perform_aml_monitoring pep_scenario 1700000000 transfer_to_iran of
      Inl err \<Rightarrow> False
    | Inr m \<Rightarrow>
        map ad_rule_name (mr_alerts_generated m) = [''Cross-Border High Risk Country''] \<and>
        mr_risk_score m = 86)"
  by (simp add: pep_rule_result pep_monitoring) (simp add: cbn_pep_001_def)

subsection \<open>A transaction after three near-threshold transfers\<close>

lemma structuring_scenario_rule_result:
  assumes "txn_cross_border t = False" "txn_cash_transaction t = False"
  shows "apply_monitoring_rule structuring_scenario 1700000000 t low_risk_customer cbn_vel_001 =
     \<lparr>triggered = True, risk_contribution = 30, alert_required = True,
      threshold_values =
        [(''velocity'', Velocity \<lparr>vr_threshold_exceeded = True, vr_transaction_count = 3,
            vr_total_amount = 14650000, vr_count_threshold = 50, vr_amount_threshold = 10000000\<rparr>),
         (''structuring'', Structuring \<lparr>sr_transaction_count = 3, sr_total_amount = 14650000,
            sr_likely_structuring = True\<rparr>)]\<rparr>"
  by (simp add: apply_monitoring_rule_def block_defs has_key_def cbn_vel_001_def low_risk_customer_def
        check_transaction_velocity_def detect_structuring_def structuring_scenario_def
        near_threshold_history_def empty_state_def transfer_def timedelta_hours_def timedelta_days_def
        dict_set_def Let_def assms)

lemma py_mod_4900000: "py_mod 4900000 1000000 = 900000"
proof -
  have "\<lfloor>(49 / 10 :: rat)\<rfloor> = 4" by (rule floor_unique) simp_all
  then show ?thesis by (simp add: py_mod_def)
qed

lemma structuring_scenario_patterns:
  assumes "txn_amount t = 4900000" "txn_transaction_date t = 1700000000"
  shows "detect_transaction_patterns structuring_scenario 1700000000 t low_risk_customer =
     \<lparr>pr_risk_contribution = 0, pr_flags = [], pr_alerts = []\<rparr>"
  by (simp add: detect_transaction_patterns_def Let_def hour_of_def py_mod_4900000 dict_set_def assms
        structuring_scenario_def near_threshold_history_def empty_state_def transfer_def
        low_risk_customer_def timedelta_days_def)

lemma structuring_scenario_monitoring:
  assumes "txn_customer_id t = 1" "txn_amount t = 4900000" "txn_transaction_date t = 1700000000"
    "txn_cross_border t = False" "txn_cash_transaction t = False"
  shows "perform_aml_monitoring structuring_scenario 1700000000 t =
     Inr \<lparr>mr_risk_score = 30,
          mr_risk_flags = [(''cbn-vel-001'', True)],
          mr_is_suspicious = False,
          mr_alerts_generated =
            [\<lparr>ad_rule_id = Some 11, ad_rule_name = ''Rapid Transaction Velocity'',
              ad_risk_score = 30,
              ad_threshold_exceeded = Some
                [(''velocity'', Velocity \<lparr>vr_threshold_exceeded = True, vr_transaction_count = 3,
                    vr_total_amount = 14650000, vr_count_threshold = 50, vr_amount_threshold = 10000000\<rparr>),
                 (''structuring'', Structuring \<lparr>sr_transaction_count = 3, sr_total_amount = 14650000,
                    sr_likely_structuring = True\<rparr>)],
              ad_severity = Some ''medium''\<rparr>],
          mr_rules_triggered = 1\<rparr>"
proof -
  have cust: "filter (\<lambda>c. cust_id c = txn_customer_id t) (customers structuring_scenario) = [low_risk_customer]"
    by (simp add: structuring_scenario_def low_risk_customer_def assms)
  have act: "filter (\<lambda>r. rule_status r = ''active'' \<and> rule_type r = ''transaction_monitoring'') (rules structuring_scenario)
       = [cbn_vel_001]"
    by (simp add: structuring_scenario_def cbn_vel_001_def)
  have code: "lower (rule_code cbn_vel_001) = ''cbn-vel-001''"
    by (simp add: lower_def lower_char_def cbn_vel_001_def)
  have fold: "foldl (monitor_rule structuring_scenario 1700000000 t low_risk_customer) (0, [], []) [cbn_vel_001]
     = (30, [(''cbn-vel-001'', True)],
        [\<lparr>ad_rule_id = Some 11, ad_rule_name = ''Rapid Transaction Velocity'',
              ad_risk_score = 30,
              ad_threshold_exceeded = Some
                [(''velocity'', Velocity \<lparr>vr_threshold_exceeded = True, vr_transaction_count = 3,
                    vr_total_amount = 14650000, vr_count_threshold = 50, vr_amount_threshold = 10000000\<rparr>),
                 (''structuring'', Structuring \<lparr>sr_transaction_count = 3, sr_total_amount = 14650000,
                    sr_likely_structuring = True\<rparr>)],
              ad_severity = Some ''medium''\<rparr>])"
    by (simp add: monitor_rule_def structuring_scenario_rule_result assms code dict_set_def)
       (simp add: cbn_vel_001_def)
  show ?thesis
    by (simp add: perform_aml_monitoring_def cust act fold structuring_scenario_patterns assms(2-) Let_def
          dict_update_def del: foldl_Cons)
qed

lemma structuring_scenario_processed:
  "case process_transaction demo_env analyst ''T-4'' 1 ''transfer'' 4900000 ''NGN'' ''0123456789''
          ''mobile'' ''mobile_app'' None structuring_scenario of
     Inl err \<Rightarrow> False
   | Inr (t, st) \<Rightarrow>
       txn_id t = 4097 \<and>
       txn_risk_flags t = [(''cbn-vel-001'', True)] \<and>
       txn_alert_count t = 1 \<and>
       txn_velocity_flag t = False \<and>
       txn_structuring_indicator t = False \<and>
       map alert_id (alerts st) = [4099] \<and>
       map (\<lambda>l. (log_event_type l, log_resource_id l)) (audit_logs st) =
         [(''alert_generated'', Some 4099), (''transaction_processed'', Some 4097)]"
proof -
  have rng0: "rng structuring_scenario = 0" "alerts structuring_scenario = []"
     "audit_logs structuring_scenario = []"
    by (simp_all add: structuring_scenario_def near_threshold_history_def empty_state_def)
  have low: "lower ''mobile'' = ''mobile''"
    by (simp add: lower_def lower_char_def)
  show ?thesis
    by (simp add: process_transaction_def new_transaction_def record_monitoring_def uuid4_def
          demo_env_def analyst_def Let_def low structuring_scenario_monitoring create_alert_from_transaction_def log_audit_event_def
          sync_def dict_get_def rng0 split: prod.splits)
qed

text \<open>
  Claim C2 says that the stored transaction's \<open>velocity_flag\<close> and
  \<open>structuring_indicator\<close> are true whenever a triggered rule's velocity check or
  structuring detection fired. \<open>perform_aml_monitoring\<close> keys \<open>risk_flags\<close> by the
  lower-cased rule code, while \<open>process_transaction\<close> reads the keys \<open>velocity\<close> and
  \<open>structuring\<close>. With \<open>CBN-VEL-001\<close> active and three near-threshold transfers in the
  window, both checks fire for the next transaction, the only flag is \<open>cbn-vel-001\<close>, and
  both columns are stored false.
\<close>

theorem fired_checks_leave_flags_false:
  "vr_threshold_exceeded (check_transaction_velocity structuring_scenario 1700000000
       (transfer 200 1 4900000 1700000000) low_risk_customer) \<and>
   sr_likely_structuring (detect_structuring structuring_scenario 1700000000
       (transfer 200 1 4900000 1700000000) low_risk_customer) \<and>
   (case process_transaction demo_env analyst ''T-4'' 1 ''transfer'' 4900000 ''NGN'' ''0123456789''
           ''mobile'' ''mobile_app'' None structuring_scenario of
      Inl err \<Rightarrow> False
    | Inr (t, st) \<Rightarrow>
        txn_risk_flags t = [(''cbn-vel-001'', True)] \<and> txn_alert_count t = 1 \<and>
        \<not> txn_velocity_flag t \<and> \<not> txn_structuring_indicator t)"
proof -
  have "vr_threshold_exceeded (check_transaction_velocity structuring_scenario 1700000000
       (transfer 200 1 4900000 1700000000) low_risk_customer)"
    by (simp add: check_transaction_velocity_def structuring_scenario_def near_threshold_history_def
          empty_state_def transfer_def low_risk_customer_def timedelta_hours_def Let_def)
  moreover have "sr_likely_structuring (detect_structuring structuring_scenario 1700000000
       (transfer 200 1 4900000 1700000000) low_risk_customer)"
    by (simp add: detect_structuring_def structuring_scenario_def near_threshold_history_def
          empty_state_def transfer_def low_risk_customer_def timedelta_days_def Let_def)
  ultimately show ?thesis
    using structuring_scenario_processed by (simp split: sum.splits prod.splits)
qed

section \<open>Audit records written by the operations\<close>

lemma sync_fresh: "\<forall>y \<in> set xs. key y \<noteq> key x \<Longrightarrow> sync key x xs = xs @ [x]"
  by (auto simp: sync_def list_ex_iff)



lemma fresh_uuids_later:
  "fresh_uuids e st \<Longrightarrow> audit_logs st' = audit_logs st \<Longrightarrow> rng st \<le> rng st' \<Longrightarrow> fresh_uuids e st'"
  by (auto simp: fresh_uuids_def)

lemma log_audit_event_fresh:
  assumes "fresh_uuids e st"
  shows "log_audit_event cat e uid ty act rt rid n st =
           st\<lparr>rng := rng st + 2,
              audit_logs := audit_logs st @ [audit_row cat e uid ty act rt rid n (rng st)]\<rparr>"
    and "fresh_uuids e (log_audit_event cat e uid ty act rt rid n st)"
proof -
  have "\<forall>y \<in> set (audit_logs st). log_id y \<noteq> env_uuid4 e (rng st + 1)"
    using assms by (auto simp: fresh_uuids_def)
  then show eq: "log_audit_event cat e uid ty act rt rid n st =
           st\<lparr>rng := rng st + 2,
              audit_logs := audit_logs st @ [audit_row cat e uid ty act rt rid n (rng st)]\<rparr>"
    by (simp add: log_audit_event_def uuid4_def Let_def audit_row_def sync_fresh)
  show "fresh_uuids e (log_audit_event cat e uid ty act rt rid n st)"
    unfolding eq using assms
    by (auto simp: fresh_uuids_def audit_row_def inj_eq)
qed

lemma log_audit_event_emits:
  assumes "fresh_uuids e st0" "audit_logs st = audit_logs st0" "rng st0 \<le> rng st"
  shows "audit_logs (log_audit_event cat e uid ty act rt rid n st) =
           audit_logs st0 @ [audit_row cat e uid ty act rt rid n (rng st)]"
  using log_audit_event_fresh(1)[OF fresh_uuids_later[OF assms], of cat uid ty act rt rid n] assms(2)
  by simp

lemma close_alert_foldl [simp]:
  "audit_logs (foldl (close_alert e u d n) s ids) = audit_logs s"
  "rng (foldl (close_alert e u d n) s ids) = rng s"
  by (induction ids arbitrary: s) (simp_all add: close_alert_def)

lemma escalate_foldl [simp]:
  "audit_logs (foldl (\<lambda>st aid. st\<lparr>alerts := f st aid\<rparr>) s ids) = audit_logs s"
  "rng (foldl (\<lambda>st aid. st\<lparr>alerts := f st aid\<rparr>) s ids) = rng s"
  by (induction ids arbitrary: s) simp_all

lemma close_case_emits:
  assumes "fresh_uuids e st" "close_case e u cid reason notes d acts st = Inr (c, st')"
  shows "\<exists>l. audit_logs st' = audit_logs st @ [l] \<and> log_resource_id l = Some (case_id c) \<and>
             log_event_type l = ''case_closed''"
  using assms(2)
  by (auto simp: close_case_def Let_def audit_row_def
        log_audit_event_emits[OF assms(1)] split: list.splits)










lemma mark_breached_foldl [simp]:
  "audit_logs (foldl mark_breached s cs) = audit_logs s"
  "rng (foldl mark_breached s cs) = rng s"
  by (induction cs arbitrary: s) (simp_all add: mark_breached_def)

















lemma record_monitoring_simps [simp]:
  "txn_id (record_monitoring t m) = txn_id t"
  "txn_alert_count (record_monitoring t m) = length (mr_alerts_generated m)"
  by (simp_all add: record_monitoring_def)






























lemma fresh_uuids_demo: "audit_logs st = [] \<Longrightarrow> fresh_uuids demo_env st"
  by (simp add: fresh_uuids_def demo_env_def inj_def)



section \<open>Closing a case\<close>

lemma close_alerts_alerts:
  "alerts (foldl (close_alert e u d n) s ids) =
     map (\<lambda>a. if alert_id a \<in> set ids then resolved e u d n a else a) (alerts s)"
proof (induction ids arbitrary: s)
  case Nil
  then show ?case by simp
next
  case (Cons i ids)
  have "alerts (close_alert e u d n s i) =
          map (\<lambda>a. if alert_id a = i then resolved e u d n a else a) (alerts s)"
    by (simp add: close_alert_def resolved_def)
  then show ?case
    by (simp add: Cons.IH resolved_def) 
qed

lemma close_alerts_other_tables [simp]:
  "cases (foldl (close_alert e u d n) s ids) = cases s"
  "customers (foldl (close_alert e u d n) s ids) = customers s"
  "transactions (foldl (close_alert e u d n) s ids) = transactions s"
  "rules (foldl (close_alert e u d n) s ids) = rules s"
  "reports (foldl (close_alert e u d n) s ids) = reports s"
  by (induction ids arbitrary: s) (simp_all add: close_alert_def)

lemma log_audit_event_tables [simp]:
  "cases (log_audit_event cat e uid ty act rt rid n st) = cases st"
  "alerts (log_audit_event cat e uid ty act rt rid n st) = alerts st"
  "customers (log_audit_event cat e uid ty act rt rid n st) = customers st"
  "rules (log_audit_event cat e uid ty act rt rid n st) = rules st"
  "reports (log_audit_event cat e uid ty act rt rid n st) = reports st"
  by (simp_all add: log_audit_event_def uuid4_def Let_def split: prod.splits)

lemma close_case_result:
  assumes "close_case e u cid reason notes d acts st = Inr (c, st')"
  shows "\<exists>c0 rest. filter (\<lambda>c. case_id c = cid) (cases st) = c0 # rest \<and>
           c = c0\<lparr>case_status := ''closed'',
                  case_closed_at := Some (env_now e),
                  case_closed_by := Some (user_id u),
                  case_closure_reason := Some reason,
                  case_closure_notes := Some notes,
                  case_decision := Some d,
                  case_actions_taken := acts,
                  case_updated_at := env_now e,
                  case_investigation_notes := case_investigation_notes c0 @ closure_line e d reason\<rparr> \<and>
           cases st' = sync case_id c (cases st) \<and>
           alerts st' = map (\<lambda>a. if alert_id a \<in> set (case_alert_ids c0) then resolved e u d notes a else a)
                          (alerts st)"
  using assms
  by (auto simp: close_case_def Let_def closure_line_def close_alerts_alerts split: list.splits)

lemma close_case_succeeds:
  assumes "filter (\<lambda>c. case_id c = cid) (cases st) \<noteq> []"
  shows "\<exists>c st'. close_case e u cid reason notes d acts st = Inr (c, st')"
  using assms by (auto simp: close_case_def Let_def split: list.splits)


lemma close_case_other_tables:
  assumes "close_case e u cid reason notes d acts st = Inr (c, st')"
  shows "customers st' = customers st \<and> transactions st' = transactions st \<and>
         rules st' = rules st \<and> reports st' = reports st"
  using assms by (auto simp: close_case_def Let_def split: list.splits)

lemma closure_line_nonempty: "closure_line e d reason \<noteq> []"
  by (simp add: closure_line_def)

lemma filter_replaced:
  "key x = k \<Longrightarrow>
   filter (\<lambda>c. key c = k) (map (\<lambda>y. if key y = k then x else y) xs) =
     replicate (length (filter (\<lambda>c. key c = k) xs)) x"
  by (induction xs) auto

lemma close_case_again:
  assumes "close_case e1 u cid reason notes d acts st = Inr (c1, st1)"
  shows "\<exists>c2 st2. close_case e2 u cid reason notes d acts st1 = Inr (c2, st2) \<and>
           c2 = c1\<lparr>case_closed_at := Some (env_now e2), case_updated_at := env_now e2,
                   case_investigation_notes := case_investigation_notes c1 @ closure_line e2 d reason\<rparr> \<and>
           cases st2 = map (\<lambda>c. if case_id c = cid then c2 else c) (cases st1) \<and>
           alerts st2 = map (\<lambda>a. if alert_id a \<in> set (case_alert_ids c1)
                                   then a\<lparr>alert_resolved_at := Some (env_now e2)\<rparr> else a) (alerts st1)"
proof -
  from close_case_result[OF assms] obtain c0 rest where
    c1: "c1 = c0\<lparr>case_status := ''closed'',
                  case_closed_at := Some (env_now e1),
                  case_closed_by := Some (user_id u),
                  case_closure_reason := Some reason,
                  case_closure_notes := Some notes,
                  case_decision := Some d,
                  case_actions_taken := acts,
                  case_updated_at := env_now e1,
                  case_investigation_notes := case_investigation_notes c0 @ closure_line e1 d reason\<rparr>"
    and f0: "filter (\<lambda>c. case_id c = cid) (cases st) = c0 # rest"
    and cs1: "cases st1 = sync case_id c1 (cases st)"
    and al1: "alerts st1 = map (\<lambda>a. if alert_id a \<in> set (case_alert_ids c0) then resolved e1 u d notes a else a)
                          (alerts st)"
    by blast
  have "c0 \<in> set (filter (\<lambda>c. case_id c = cid) (cases st))" by (simp add: f0)
  then have id0: "case_id c0 = cid" and in0: "c0 \<in> set (cases st)" by simp_all
  have id1: "case_id c1 = cid" by (simp add: c1 id0)
  have ex: "list_ex (\<lambda>y. case_id y = cid) (cases st)"
    using in0 id0 by (auto simp: list_ex_iff)
  have cs1': "cases st1 = map (\<lambda>y. if case_id y = cid then c1 else y) (cases st)"
    by (simp add: cs1 sync_def ex id1)
  have f1: "filter (\<lambda>c. case_id c = cid) (cases st1) = replicate (length (c0 # rest)) c1"
    unfolding cs1' f0[symmetric]
    by (rule filter_replaced[of case_id c1 cid, OF id1])
  then have f1': "filter (\<lambda>c. case_id c = cid) (cases st1) = c1 # replicate (length rest) c1"
    by simp
  obtain c2 st2 where r2: "close_case e2 u cid reason notes d acts st1 = Inr (c2, st2)"
    using close_case_succeeds[of cid st1 e2 u reason "notes" d acts] f1' by auto
  from close_case_result[OF r2] f1' have
    c2: "c2 = c1\<lparr>case_status := ''closed'',
                  case_closed_at := Some (env_now e2),
                  case_closed_by := Some (user_id u),
                  case_closure_reason := Some reason,
                  case_closure_notes := Some notes,
                  case_decision := Some d,
                  case_actions_taken := acts,
                  case_updated_at := env_now e2,
                  case_investigation_notes := case_investigation_notes c1 @ closure_line e2 d reason\<rparr>"
    and cs2: "cases st2 = sync case_id c2 (cases st1)"
    and al2: "alerts st2 = map (\<lambda>a. if alert_id a \<in> set (case_alert_ids c1) then resolved e2 u d notes a else a)
                          (alerts st1)"
    by auto
  have c2': "c2 = c1\<lparr>case_closed_at := Some (env_now e2), case_updated_at := env_now e2,
                   case_investigation_notes := case_investigation_notes c1 @ closure_line e2 d reason\<rparr>"
    unfolding c2 by (simp add: c1)
  have id2: "case_id c2 = cid" by (simp add: c2' id1)
  have "c1 \<in> set (filter (\<lambda>c. case_id c = cid) (cases st1))" by (simp add: f1')
  then have ex2: "list_ex (\<lambda>y. case_id y = cid) (cases st1)"
    by (auto simp: list_ex_iff)
  have cs2': "cases st2 = map (\<lambda>c. if case_id c = cid then c2 else c) (cases st1)"
    by (simp add: cs2 sync_def ex2 id2)
  have ids: "case_alert_ids c1 = case_alert_ids c0" by (simp add: c1)
  have al2': "alerts st2 = map (\<lambda>a. if alert_id a \<in> set (case_alert_ids c1)
                                   then a\<lparr>alert_resolved_at := Some (env_now e2)\<rparr> else a) (alerts st1)"
    unfolding al2 al1 ids by (simp add: resolved_def)
  show ?thesis using r2 c2' cs2' al2' by blast
qed

lemma close_case_audit:
  assumes "close_case e u cid reason notes d acts st = Inr (c, st')"
  shows "audit_logs st' =
           sync log_id (audit_row ''case_management'' e (user_id u) ''case_closed'' ''close'' ''case''
                          (Some cid) None (rng st)) (audit_logs st)"
    and "rng st' = rng st + 2"
proof -
  from close_case_result[OF assms] obtain c0 rest where
    f: "filter (\<lambda>c. case_id c = cid) (cases st) = c0 # rest" and
    c: "case_id c = case_id c0"
    by auto
  have "c0 \<in> set (filter (\<lambda>c. case_id c = cid) (cases st))" by (simp add: f)
  then have id0: "case_id c0 = cid" by simp
  show "audit_logs st' =
           sync log_id (audit_row ''case_management'' e (user_id u) ''case_closed'' ''close'' ''case''
                          (Some cid) None (rng st)) (audit_logs st)"
    using assms f id0
    by (auto simp: close_case_def Let_def log_audit_event_def uuid4_def audit_row_def)
  show "rng st' = rng st + 2"
    using assms f
    by (auto simp: close_case_def Let_def log_audit_event_def uuid4_def)
qed

lemma close_case_fresh:
  assumes "fresh_uuids e st" "close_case e u cid reason notes d acts st = Inr (c, st')"
  shows "fresh_uuids e st'"
proof -
  from close_case_emits[OF assms] obtain l where
    a: "audit_logs st' = audit_logs st @ [l]" by blast
  have s: "audit_logs st' = sync log_id (audit_row ''case_management'' e (user_id u) ''case_closed'' ''close'' ''case''
                          (Some cid) None (rng st)) (audit_logs st)"
    and r: "rng st' = rng st + 2"
    using close_case_audit[OF assms(2)] by simp_all
  have "\<forall>y \<in> set (audit_logs st). log_id y \<noteq> env_uuid4 e (rng st + 1)"
    using assms(1) by (auto simp: fresh_uuids_def)
  then have "audit_logs st' = audit_logs st @ [audit_row ''case_management'' e (user_id u) ''case_closed'' ''close'' ''case''
                          (Some cid) None (rng st)]"
    unfolding s by (intro sync_fresh) (simp add: audit_row_def)
  then show ?thesis
    using assms(1) r by (auto simp: fresh_uuids_def audit_row_def inj_eq)
qed



text \<open>
  Claim C3, as amended. Closing a closed case again with the same arguments succeeds and
  changes, of the case, only \<open>closed_at\<close> and \<open>updated_at\<close> (the time of the second call)
  and \<open>investigation_notes\<close>, which gains one more closure line; of the linked alerts only
  \<open>resolved_at\<close>. The customer, transaction, rule and report tables are unchanged. The
  second call writes its own audit record: it draws two UUIDs and stores a \<open>case_closed\<close>
  row for the case, so that with fresh UUIDs the audit log is one record longer after each
  call. When both calls read the same clock value, the alerts are unchanged and the case
  differs in \<open>investigation_notes\<close> only.
\<close>

theorem close_case_twice:
  assumes "close_case e1 u cid reason notes d acts st = Inr (c1, st1)"
  shows "\<exists>c2 st2. close_case e2 u cid reason notes d acts st1 = Inr (c2, st2) \<and>
           c2 = c1\<lparr>case_closed_at := Some (env_now e2), case_updated_at := env_now e2,
                   case_investigation_notes := case_investigation_notes c1 @ closure_line e2 d reason\<rparr> \<and>
           cases st2 = map (\<lambda>c. if case_id c = cid then c2 else c) (cases st1) \<and>
           alerts st2 = map (\<lambda>a. if alert_id a \<in> set (case_alert_ids c1)
                                   then a\<lparr>alert_resolved_at := Some (env_now e2)\<rparr> else a) (alerts st1) \<and>
           customers st2 = customers st1 \<and> transactions st2 = transactions st1 \<and>
           rules st2 = rules st1 \<and> reports st2 = reports st1 \<and>
           audit_logs st2 =
             sync log_id (audit_row ''case_management'' e2 (user_id u) ''case_closed'' ''close'' ''case''
                            (Some cid) None (rng st1)) (audit_logs st1) \<and>
           rng st2 = rng st1 + 2 \<and>
           (fresh_uuids e2 st1 \<longrightarrow>
              (\<exists>l. audit_logs st2 = audit_logs st1 @ [l] \<and> log_event_type l = ''case_closed'' \<and>
                   log_resource_id l = Some cid \<and> log_user_id l = user_id u)) \<and>
           (env_now e2 = env_now e1 \<longrightarrow>
              alerts st2 = alerts st1 \<and>
              c2 = c1\<lparr>case_investigation_notes := case_investigation_notes c1 @ closure_line e2 d reason\<rparr>)"
proof -
  from close_case_again[OF assms, of e2] obtain c2 st2 where
    r2: "close_case e2 u cid reason notes d acts st1 = Inr (c2, st2)"
    and c2: "c2 = c1\<lparr>case_closed_at := Some (env_now e2), case_updated_at := env_now e2,
                   case_investigation_notes := case_investigation_notes c1 @ closure_line e2 d reason\<rparr>"
    and cs2: "cases st2 = map (\<lambda>c. if case_id c = cid then c2 else c) (cases st1)"
    and al2: "alerts st2 = map (\<lambda>a. if alert_id a \<in> set (case_alert_ids c1)
                                   then a\<lparr>alert_resolved_at := Some (env_now e2)\<rparr> else a) (alerts st1)"
    by blast
  note other = close_case_other_tables[OF r2]
  note audit = close_case_audit[OF r2]
  have appended: "\<exists>l. audit_logs st2 = audit_logs st1 @ [l] \<and> log_event_type l = ''case_closed'' \<and>
                   log_resource_id l = Some cid \<and> log_user_id l = user_id u"
    if f: "fresh_uuids e2 st1"
  proof -
    have "\<forall>y \<in> set (audit_logs st1). log_id y \<noteq> env_uuid4 e2 (rng st1 + 1)"
      using f by (auto simp: fresh_uuids_def)
    then have "audit_logs st2 = audit_logs st1 @
        [audit_row ''case_management'' e2 (user_id u) ''case_closed'' ''close'' ''case''
           (Some cid) None (rng st1)]"
      unfolding audit(1) by (intro sync_fresh) (simp add: audit_row_def)
    then show ?thesis by (simp add: audit_row_def)
  qed
  have same: "alerts st2 = alerts st1 \<and>
              c2 = c1\<lparr>case_investigation_notes := case_investigation_notes c1 @ closure_line e2 d reason\<rparr>"
    if now: "env_now e2 = env_now e1"
  proof -
    from close_case_result[OF assms] obtain c0 where
      c1: "c1 = c0\<lparr>case_status := ''closed'',
                  case_closed_at := Some (env_now e1),
                  case_closed_by := Some (user_id u),
                  case_closure_reason := Some reason,
                  case_closure_notes := Some notes,
                  case_decision := Some d,
                  case_actions_taken := acts,
                  case_updated_at := env_now e1,
                  case_investigation_notes := case_investigation_notes c0 @ closure_line e1 d reason\<rparr>"
      and al1: "alerts st1 = map (\<lambda>a. if alert_id a \<in> set (case_alert_ids c0) then resolved e1 u d notes a else a)
                          (alerts st)"
      by blast
    have ids: "case_alert_ids c1 = case_alert_ids c0" by (simp add: c1)
    have "alerts st2 = alerts st1"
      unfolding al2 ids al1 by (simp add: resolved_def now)
    moreover have "c2 = c1\<lparr>case_investigation_notes := case_investigation_notes c1 @ closure_line e2 d reason\<rparr>"
      unfolding c2 by (simp add: c1 now)
    ultimately show ?thesis by simp
  qed
  show ?thesis
    using r2 c2 cs2 al2 other audit appended same by blast
qed

theorem close_case_twice_witness:
  "\<exists>c1 st1 c2 st2.
      close_case demo_env analyst 50 ''regulatory_action'' ''STR to be filed'' ''file_str''
        [''account review''] case_scenario = Inr (c1, st1) \<and>
      close_case demo_env analyst 50 ''regulatory_action'' ''STR to be filed'' ''file_str''
        [''account review''] st1 = Inr (c2, st2) \<and>
      alerts st2 = alerts st1 \<and> case_status c2 = case_status c1 \<and>
      case_decision c2 = case_decision c1 \<and> case_closed_at c2 = case_closed_at c1 \<and>
      case_investigation_notes c2 =
        case_investigation_notes c1 @ closure_line demo_env ''file_str'' ''regulatory_action'' \<and>
      fresh_uuids demo_env st1 \<and>
      map log_event_type (audit_logs st1) = [''case_closed''] \<and>
      map log_event_type (audit_logs st2) = [''case_closed'', ''case_closed''] \<and>
      map log_resource_id (audit_logs st2) = [Some 50, Some 50]"
proof -
  have "filter (\<lambda>c. case_id c = 50) (cases case_scenario) \<noteq> []"
    by (simp add: case_scenario_def empty_state_def open_case_def)
  from close_case_succeeds[OF this, of demo_env analyst "''regulatory_action''"
      "''STR to be filed''" "''file_str''" "[''account review'']"]
  obtain c1 st1 where r1: "close_case demo_env analyst 50 ''regulatory_action'' ''STR to be filed''
      ''file_str'' [''account review''] case_scenario = Inr (c1, st1)" by auto
  have f0: "fresh_uuids demo_env case_scenario"
    by (rule fresh_uuids_demo) (simp add: case_scenario_def empty_state_def)
  have f1: "fresh_uuids demo_env st1" by (rule close_case_fresh[OF f0 r1])
  from close_case_emits[OF f0 r1] close_case_result[OF r1]
  obtain l1 where a1: "audit_logs st1 = [l1]" "log_event_type l1 = ''case_closed''"
      "log_resource_id l1 = Some 50"
    by (auto simp: case_scenario_def empty_state_def open_case_def)
  from close_case_twice[OF r1, of demo_env] obtain c2 st2 where
    r2: "close_case demo_env analyst 50 ''regulatory_action'' ''STR to be filed'' ''file_str''
        [''account review''] st1 = Inr (c2, st2)"
    and appended: "fresh_uuids demo_env st1 \<longrightarrow>
              (\<exists>l. audit_logs st2 = audit_logs st1 @ [l] \<and> log_event_type l = ''case_closed'' \<and>
                   log_resource_id l = Some 50 \<and> log_user_id l = user_id analyst)"
    and same: "env_now demo_env = env_now demo_env \<longrightarrow>
              alerts st2 = alerts st1 \<and>
              c2 = c1\<lparr>case_investigation_notes := case_investigation_notes c1 @
                     closure_line demo_env ''file_str'' ''regulatory_action''\<rparr>"
    by blast
  from same have al: "alerts st2 = alerts st1"
    and c2: "c2 = c1\<lparr>case_investigation_notes := case_investigation_notes c1 @
                 closure_line demo_env ''file_str'' ''regulatory_action''\<rparr>"
    by simp_all
  from appended f1 obtain l2 where
    a2: "audit_logs st2 = audit_logs st1 @ [l2]" "log_event_type l2 = ''case_closed''"
      "log_resource_id l2 = Some 50"
    by blast
  show ?thesis
    by (intro exI[of _ c1] exI[of _ st1] exI[of _ c2] exI[of _ st2])
       (simp add: r1 r2 al f1 a1 a2 c2)
qed

text \<open>
  The claim as stated fails even when both calls read the same clock value: the second
  call appends a second closure line, so the case stored after two calls is not the case
  stored after one.
\<close>

theorem close_case_not_idempotent_counterexample:
  "case close_case demo_env analyst 50 ''regulatory_action'' ''STR to be filed'' ''file_str''
          [''account review''] case_scenario of
     Inl err \<Rightarrow> False
   | Inr (c1, st1) \<Rightarrow>
       (case close_case demo_env analyst 50 ''regulatory_action'' ''STR to be filed'' ''file_str''
               [''account review''] st1 of
          Inl err \<Rightarrow> False
        | Inr (c2, st2) \<Rightarrow>
            case_investigation_notes c2 \<noteq> case_investigation_notes c1 \<and> c2 \<noteq> c1 \<and>
            cases st1 = [c1] \<and> cases st2 = [c2])"
proof -
  have f: "filter (\<lambda>c. case_id c = 50) (cases case_scenario) = [open_case]"
    by (simp add: case_scenario_def empty_state_def open_case_def)
  then have "filter (\<lambda>c. case_id c = 50) (cases case_scenario) \<noteq> []" by simp
  from close_case_succeeds[OF this, of demo_env analyst "''regulatory_action''"
      "''STR to be filed''" "''file_str''" "[''account review'']"]
  obtain c1 st1 where r1: "close_case demo_env analyst 50 ''regulatory_action'' ''STR to be filed''
      ''file_str'' [''account review''] case_scenario = Inr (c1, st1)" by auto
  from close_case_result[OF r1] f have id1: "case_id c1 = 50"
    and cs1: "cases st1 = sync case_id c1 (cases case_scenario)"
    by (auto simp: open_case_def)
  have cs1': "cases st1 = [c1]"
    unfolding cs1 by (simp add: sync_def case_scenario_def empty_state_def open_case_def id1)
  from close_case_again[OF r1, of demo_env] obtain c2 st2 where
    r2: "close_case demo_env analyst 50 ''regulatory_action'' ''STR to be filed'' ''file_str''
        [''account review''] st1 = Inr (c2, st2)"
    and c2: "c2 = c1\<lparr>case_closed_at := Some (env_now demo_env), case_updated_at := env_now demo_env,
                   case_investigation_notes := case_investigation_notes c1 @
                     closure_line demo_env ''file_str'' ''regulatory_action''\<rparr>"
    and cs2: "cases st2 = map (\<lambda>c. if case_id c = 50 then c2 else c) (cases st1)"
    by blast
  have n: "case_investigation_notes c2 \<noteq> case_investigation_notes c1"
    unfolding c2 by (simp add: closure_line_nonempty)
  then have "c2 \<noteq> c1" by auto
  moreover have "cases st2 = [c2]" unfolding cs2 cs1' by (simp add: id1)
  ultimately show ?thesis using n cs1' by (simp add: r1 r2)
qed

section \<open>Creating a case from alerts\<close>

lemma set_add_props:
  "distinct s \<Longrightarrow> distinct (set_add x s)"
  "set (set_add x s) = insert x (set s)"
  by (auto simp: set_add_def)

lemma load_alerts_result:
  assumes "load_alerts st ids (as0, cs0, ts0) = Inr (as, cs, ts)" "distinct cs0"
  shows "\<exists>new. as = as0 @ new \<and> map alert_id new = ids \<and> set new \<subseteq> set (alerts st) \<and>
           distinct cs \<and> set cs = set cs0 \<union> alert_customer_id ` set new"
  using assms
proof (induction ids arbitrary: as0 cs0 ts0)
  case Nil
  then show ?case by simp
next
  case (Cons i ids)
  show ?case
  proof (cases "filter (\<lambda>a. alert_id a = i) (alerts st)")
    case Nil
    with Cons.prems show ?thesis by simp
  next
    case (Cons a rest)
    have "a \<in> set (filter (\<lambda>a. alert_id a = i) (alerts st))" by (simp add: Cons)
    then have a: "a \<in> set (alerts st)" "alert_id a = i" by simp_all
    from Cons.prems(1) Cons
    have "load_alerts st ids (as0 @ [a], set_add (alert_customer_id a) cs0,
             (case alert_transaction_id a of None \<Rightarrow> ts0 | Some t \<Rightarrow> ts0 @ [t])) = Inr (as, cs, ts)"
      by simp
    from Cons.IH[OF this set_add_props(1)[OF Cons.prems(2)]] obtain new where
      "as = (as0 @ [a]) @ new" "map alert_id new = ids" "set new \<subseteq> set (alerts st)"
      "distinct cs" "set cs = set (set_add (alert_customer_id a) cs0) \<union> alert_customer_id ` set new"
      by blast
    then show ?thesis
      using a by (intro exI[of _ "a # new"]) (auto simp: set_add_props(2))
  qed
qed

lemma create_case_customers:
  assumes "create_case_from_alerts iter e u ids ctype prio st = Inr (c, st')"
  shows "\<exists>as cs ts others. load_alerts st ids ([], [], []) = Inr (as, cs, ts) \<and>
           iter cs = case_customer_id c # others \<and>
           case_related_customers c = (if length cs > 1 then others else []) \<and>
           case_alert_ids c = ids"
  using assms
  by (auto simp: create_case_from_alerts_def Let_def uuid4_def split: sum.splits list.splits prod.splits)

lemma create_case_succeeds:
  assumes "load_alerts st ids ([], [], []) = Inr (a # as, cs, ts)" "iter cs \<noteq> []"
  shows "\<exists>c st'. create_case_from_alerts iter e u ids ctype prio st = Inr (c, st')"
  using assms
  by (auto simp: create_case_from_alerts_def determine_case_risk_level_def Let_def uuid4_def
        split: list.splits prod.splits)

lemma slot_order_lists:
  "\<forall>xs. set (slot_order (remdups xs)) = set xs \<and> distinct (slot_order (remdups xs))"
  by (simp add: slot_order_def)

lemma two_customer_alerts_loaded:
  "\<exists>a b. load_alerts two_customer_alerts [i, j] ([], [], []) = Inr ([a, b], [alert_customer_id a, alert_customer_id b], [])
        \<and> alert_id a = i \<and> alert_id b = j \<and> alert_customer_id a \<noteq> alert_customer_id b"
  if "(i = 61 \<and> j = 62) \<or> (i = 62 \<and> j = 61)"
  using that
  by (auto simp: two_customer_alerts_def empty_state_def escalated_alert_def set_add_def)

lemma slot_order_pair: "slot_order [2, Suc 0] = [Suc 0, 2]" "slot_order [Suc 0, 2] = [Suc 0, 2]"
  by (simp_all add: slot_order_def cpython_slot_def)

lemma slot_order_empty: "slot_order xs = [] \<longleftrightarrow> xs = []"
proof -
  have "length (slot_order xs) = length xs" by (simp add: slot_order_def)
  then show ?thesis by (metis length_0_conv)
qed

text \<open>
  Claim C5, as amended. Whatever order the iteration of the set yields (any listing of
  the set without repetition), a successful \<open>create_case_from_alerts\<close> loads one stored
  alert per given id, and the primary customer together with \<open>related_customers\<close> lists
  the distinct customers of these alerts, each once: the primary customer is one of them
  and all the others are related customers. Which of them is primary is decided by the
  iteration order of the set, not by the order in which the alerts were given.
\<close>

theorem case_customers_from_alerts:
  assumes "\<forall>xs. set (iter (remdups xs)) = set xs \<and> distinct (iter (remdups xs))"
    and "create_case_from_alerts iter e u ids ctype prio st = Inr (c, st')"
  shows "\<exists>as. map alert_id as = ids \<and> set as \<subseteq> set (alerts st) \<and>
           distinct (case_customer_id c # case_related_customers c) \<and>
           set (case_customer_id c # case_related_customers c) = alert_customer_id ` set as"
proof -
  from create_case_customers[OF assms(2)] obtain as cs ts others where
    l: "load_alerts st ids ([], [], []) = Inr (as, cs, ts)"
    and i: "iter cs = case_customer_id c # others"
    and r: "case_related_customers c = (if length cs > 1 then others else [])"
    by blast
  from load_alerts_result[OF l] have
    as: "map alert_id as = ids" "set as \<subseteq> set (alerts st)"
    and cs: "distinct cs" "set cs = alert_customer_id ` set as"
    by auto
  from assms(1) have "set (iter (remdups cs)) = set cs" "distinct (iter (remdups cs))" by auto
  with cs(1) have p: "set (iter cs) = set cs" "distinct (iter cs)"
    by (simp_all add: distinct_remdups_id)
  have "others = []" if "\<not> length cs > 1"
  proof -
    have "length (iter cs) = length cs"
      using p cs(1) by (metis distinct_card)
    with that show ?thesis by (cases others) (simp_all add: i)
  qed
  then have "case_related_customers c = others" by (simp add: r)
  with p i cs(2) as show ?thesis
    by (intro exI[of _ as]) simp
qed

text \<open>
  With the alerts given as 62 (customer 1), 61 (customer 2), the case has primary
  customer 1 and related customer 2.
\<close>

theorem case_customers_from_alerts_witness:
  "(\<forall>xs. set (slot_order (remdups xs)) = set xs \<and> distinct (slot_order (remdups xs))) \<and>
   (\<exists>c st'. create_case_from_alerts slot_order demo_env analyst [62, 61] ''suspicious_activity'' 3
        two_customer_alerts = Inr (c, st') \<and>
      case_customer_id c = 1 \<and> case_related_customers c = [2])"
proof -
  from two_customer_alerts_loaded[of 62 61] obtain a b where
    l: "load_alerts two_customer_alerts [62, 61] ([], [], []) =
          Inr ([a, b], [alert_customer_id a, alert_customer_id b], [])"
    and ids: "alert_id a = 62" "alert_id b = 61" by auto
  have "a \<in> set (alerts two_customer_alerts)" "b \<in> set (alerts two_customer_alerts)"
    using load_alerts_result[OF l] by auto
  with ids have cu: "alert_customer_id a = 1" "alert_customer_id b = 2"
    by (auto simp: two_customer_alerts_def empty_state_def escalated_alert_def)
  have ne: "slot_order [alert_customer_id a, alert_customer_id b] \<noteq> []"
    by (simp add: slot_order_empty)
  from create_case_succeeds[where iter = slot_order and e = demo_env and u = analyst and
      ctype = "''suspicious_activity''" and prio = 3, OF l ne]
  obtain c st' where r: "create_case_from_alerts slot_order demo_env analyst [62, 61]
      ''suspicious_activity'' 3 two_customer_alerts = Inr (c, st')" by auto
  from create_case_customers[OF r] l have
    "case_customer_id c = 1 \<and> case_related_customers c = [2]"
    by (auto simp: cu slot_order_pair)
  moreover note case_customers_from_alerts[OF slot_order_lists r]
  ultimately show ?thesis using r slot_order_lists by blast
qed

text \<open>
  The claim as stated fails: with the alerts given as 61 (customer 2), 62 (customer 1),
  the first distinct customer in the order given is 2, and the case again has primary
  customer 1 and related customer 2.
\<close>

theorem primary_customer_counterexample:
  "map alert_id (alerts two_customer_alerts) = [61, 62] \<and>
   map alert_customer_id (alerts two_customer_alerts) = [2, 1] \<and>
   (case create_case_from_alerts slot_order demo_env analyst [61, 62] ''suspicious_activity'' 3
           two_customer_alerts of
      Inl err \<Rightarrow> False
    | Inr (c, st') \<Rightarrow> case_customer_id c = 1 \<and> case_related_customers c = [2])"
proof -
  from two_customer_alerts_loaded[of 61 62] obtain a b where
    l: "load_alerts two_customer_alerts [61, 62] ([], [], []) =
          Inr ([a, b], [alert_customer_id a, alert_customer_id b], [])"
    and ids: "alert_id a = 61" "alert_id b = 62" by auto
  have "a \<in> set (alerts two_customer_alerts)" "b \<in> set (alerts two_customer_alerts)"
    using load_alerts_result[OF l] by auto
  with ids have cu: "alert_customer_id a = 2" "alert_customer_id b = 1"
    by (auto simp: two_customer_alerts_def empty_state_def escalated_alert_def)
  have ne: "slot_order [alert_customer_id a, alert_customer_id b] \<noteq> []"
    by (simp add: slot_order_empty)
  from create_case_succeeds[where iter = slot_order and e = demo_env and u = analyst and
      ctype = "''suspicious_activity''" and prio = 3, OF l ne]
  obtain c st' where r: "create_case_from_alerts slot_order demo_env analyst [61, 62]
      ''suspicious_activity'' 3 two_customer_alerts = Inr (c, st')" by auto
  from create_case_customers[OF r] l have
    "case_customer_id c = 1 \<and> case_related_customers c = [2]"
    by (auto simp: cu slot_order_pair)
  then show ?thesis
    by (simp add: r) (simp add: two_customer_alerts_def empty_state_def escalated_alert_def)
qed

end
